theory Spec2Isabelle
  imports Main "HOL-Library.Sublist"
begin

section \<open>Go values used by the resource handler\<close>

text \<open>
  The file \<^verbatim>\<open>aws/resource_aws_api_gateway_rest_api.go\<close> implements the
  create, read, update and delete callbacks of the API Gateway REST API resource.
  Go's \<^verbatim>\<open>error\<close> values are kept symbolic: an error of the AWS SDK carries
  its code and message (the type assertion \<^verbatim>\<open>err.(awserr.Error)\<close> succeeds
  exactly on these), \<^verbatim>\<open>fmt.Errorf(prefix + "%s", err)\<close> and
  \<^verbatim>\<open>errwrap.Wrapf(format, err)\<close> keep their format text and their cause.
\<close>

datatype go_error =
    AwsError string string
  | OtherError string
  | Errorf string go_error
  | Wrapf string go_error

text \<open>
  A run-time panic of the Go program: the three kinds this file can raise. A type
  assertion \<^verbatim>\<open>v.(string)\<close> without the second result panics with an interface
  conversion error when \<^verbatim>\<open>v\<close> is the \<^verbatim>\<open>nil\<close> interface value.
\<close>

datatype go_panic = IndexOutOfRange | NilPointerDereference | InterfaceConversion

text \<open>What a callback hands back to the host: \<^verbatim>\<open>nil\<close>, an error, or a panic.\<close>

datatype outcome = ReturnNil | ReturnError go_error | Panicked go_panic

subsection \<open>strconv.Itoa\<close>

definition digit :: "nat \<Rightarrow> char" where
  "digit n = ''0123456789'' ! n"

function FormatUint :: "nat \<Rightarrow> string" where
  "FormatUint n = (if n < 10 then [digit n] else FormatUint (n div 10) @ [digit (n mod 10)])"
  by pat_completeness auto
termination
  by (relation "measure id") auto

definition Itoa :: "int \<Rightarrow> string" where
  "Itoa i = (if i < 0 then CHR ''-'' # FormatUint (nat (- i)) else FormatUint (nat i))"

subsection \<open>unicode/utf8 and strconv.Unquote\<close>

text \<open>
  The read callback unescapes the policy with \<^verbatim>\<open>strconv.Unquote\<close>, which
  belongs to Go's standard library and not to the repository. A Go string is a sequence
  of bytes: a \<^typ>\<open>char\<close> is one byte, \<open>byte c\<close> its value. The model follows the
  library's source: \<^verbatim>\<open>Unquote\<close> strips the quotes, rejects a raw line feed
  between double or single quotes, returns a text without backslash and quote as it
  is when it is valid UTF-8, and otherwise decodes one character after the other with
  \<^verbatim>\<open>UnquoteChar\<close>. The shifts and masks of package utf8 are written as
  multiplication, division and remainder. A rune is an \<^verbatim>\<open>int32\<close>: the value of
  eight hexadecimal digits after \<^verbatim>\<open>\U\<close> is read as a signed 32-bit number,
  written out in \<open>int32\<close>.
\<close>

definition byte :: "char \<Rightarrow> nat" where
  "byte c = of_char c"

definition RuneError :: nat where "RuneError = 0xFFFD"
definition RuneSelf :: nat where "RuneSelf = 0x80"
definition MaxRune :: nat where "MaxRune = 0x10FFFF"

definition ErrSyntax :: go_error where
  "ErrSyntax = OtherError ''invalid syntax''"

text \<open>
  The table \<^verbatim>\<open>first\<close> of package utf8 with its accept ranges: for a leading
  byte of a multi-byte sequence, the length of the sequence and the bounds of the
  second byte; \<open>None\<close> for a byte that cannot lead one.
\<close>

definition first :: "nat \<Rightarrow> (nat \<times> nat \<times> nat) option" where
  "first b =
     (if 0xC2 \<le> b \<and> b \<le> 0xDF then Some (2, 0x80, 0xBF)
      else if b = 0xE0 then Some (3, 0xA0, 0xBF)
      else if 0xE1 \<le> b \<and> b \<le> 0xEC then Some (3, 0x80, 0xBF)
      else if b = 0xED then Some (3, 0x80, 0x9F)
      else if 0xEE \<le> b \<and> b \<le> 0xEF then Some (3, 0x80, 0xBF)
      else if b = 0xF0 then Some (4, 0x90, 0xBF)
      else if 0xF1 \<le> b \<and> b \<le> 0xF3 then Some (4, 0x80, 0xBF)
      else if b = 0xF4 then Some (4, 0x80, 0x8F)
      else None)"

definition continuation :: "nat \<Rightarrow> bool" where
  "continuation b = (0x80 \<le> b \<and> b \<le> 0xBF)"

definition DecodeRuneInString :: "string \<Rightarrow> nat \<times> nat" where
  "DecodeRuneInString s =
     (let n = length s in
      if n < 1 then (RuneError, 0)
      else
        let s0 = byte (s ! 0) in
        if s0 < RuneSelf then (s0, 1)
        else case first s0 of
          None \<Rightarrow> (RuneError, 1)
        | Some (sz, lo, hi) \<Rightarrow>
            if n < sz then (RuneError, 1)
            else
              let s1 = byte (s ! 1) in
              if s1 < lo \<or> hi < s1 then (RuneError, 1)
              else if sz \<le> 2 then ((s0 mod 32) * 64 + s1 mod 64, 2)
              else
                let s2 = byte (s ! 2) in
                if \<not> continuation s2 then (RuneError, 1)
                else if sz \<le> 3 then ((s0 mod 16) * 4096 + (s1 mod 64) * 64 + s2 mod 64, 3)
                else
                  let s3 = byte (s ! 3) in
                  if \<not> continuation s3 then (RuneError, 1)
                  else ((s0 mod 8) * 262144 + (s1 mod 64) * 4096 + (s2 mod 64) * 64
                          + s3 mod 64, 4))"

function ValidString :: "string \<Rightarrow> bool" where
  "ValidString s =
     (if s = [] then True
      else
        let si = byte (s ! 0) in
        if si < RuneSelf then ValidString (drop 1 s)
        else case first si of
          None \<Rightarrow> False
        | Some (sz, lo, hi) \<Rightarrow>
            if sz > length s then False
            else if byte (s ! 1) < lo \<or> hi < byte (s ! 1) then False
            else if sz = 2 then ValidString (drop 2 s)
            else if \<not> continuation (byte (s ! 2)) then False
            else if sz = 3 then ValidString (drop 3 s)
            else if \<not> continuation (byte (s ! 3)) then False
            else ValidString (drop 4 s))"
  by pat_completeness auto
termination
  by (relation "measure length") auto

definition EncodeRune :: "nat \<Rightarrow> string" where
  "EncodeRune r =
     (if r \<le> 0x7F then [char_of r]
      else if r \<le> 0x7FF then [char_of (0xC0 + r div 64), char_of (0x80 + r mod 64)]
      else
        let r = (if r > MaxRune \<or> (0xD800 \<le> r \<and> r \<le> 0xDFFF) then RuneError else r) in
        if r \<le> 0xFFFF
        then [char_of (0xE0 + r div 4096), char_of (0x80 + (r div 64) mod 64),
              char_of (0x80 + r mod 64)]
        else [char_of (0xF0 + r div 262144), char_of (0x80 + (r div 4096) mod 64),
              char_of (0x80 + (r div 64) mod 64), char_of (0x80 + r mod 64)])"

definition unhex :: "char \<Rightarrow> nat option" where
  "unhex b =
     (let c = byte b in
      if byte CHR ''0'' \<le> c \<and> c \<le> byte CHR ''9'' then Some (c - byte CHR ''0'')
      else if byte CHR ''a'' \<le> c \<and> c \<le> byte CHR ''f'' then Some (c - byte CHR ''a'' + 10)
      else if byte CHR ''A'' \<le> c \<and> c \<le> byte CHR ''F'' then Some (c - byte CHR ''A'' + 10)
      else None)"

fun hex_value :: "string \<Rightarrow> nat \<Rightarrow> nat option" where
  "hex_value [] v = Some v"
| "hex_value (c # cs) v =
     (case unhex c of None \<Rightarrow> None | Some x \<Rightarrow> hex_value cs (v * 16 + x))"

fun octal_value :: "string \<Rightarrow> nat \<Rightarrow> nat option" where
  "octal_value [] v = Some v"
| "octal_value (c # cs) v =
     (if byte c < byte CHR ''0'' \<or> byte c > byte CHR ''7'' then None
      else octal_value cs (v * 8 + (byte c - byte CHR ''0'')))"

definition int32 :: "nat \<Rightarrow> int" where
  "int32 v = (if v mod 2 ^ 32 < 2 ^ 31 then int (v mod 2 ^ 32) else int (v mod 2 ^ 32) - 2 ^ 32)"

text \<open>
  \<^verbatim>\<open>utf8.ValidRune\<close>: a code point that is neither negative, nor a surrogate
  half, nor above \<^verbatim>\<open>MaxRune\<close>.
\<close>

definition surrogateMin :: int where "surrogateMin = 0xD800"
definition surrogateMax :: int where "surrogateMax = 0xDFFF"

definition ValidRune :: "int \<Rightarrow> bool" where
  "ValidRune r =
     (if 0 \<le> r \<and> r < surrogateMin then True
      else if surrogateMax < r \<and> r \<le> int MaxRune then True
      else False)"

text \<open>
  \<^verbatim>\<open>UnquoteChar(s, quote)\<close>: the value of the first character or escape
  sequence of \<open>s\<close>, whether it is a multi-byte rune, and the rest of \<open>s\<close>. The
  value of a backslash-u or backslash-U escape is accumulated in a
  \<^verbatim>\<open>rune\<close> (an int32) and refused unless it is a valid rune.
\<close>

definition UnquoteChar :: "string \<Rightarrow> char \<Rightarrow> go_error + (int \<times> bool \<times> string)" where
  "UnquoteChar s quote =
     (if s = [] then Inl ErrSyntax
      else
        let c = s ! 0 in
        if c = quote \<and> (quote = CHR 0x27 \<or> quote = CHR 0x22) then Inl ErrSyntax
        else if byte c \<ge> RuneSelf
        then (case DecodeRuneInString s of (r, sz) \<Rightarrow> Inr (int r, True, drop sz s))
        else if c \<noteq> CHR 0x5C then Inr (int (byte c), False, drop 1 s)
        else if length s \<le> 1 then Inl ErrSyntax
        else
          let c = s ! 1; s = drop 2 s in
          if c = CHR ''a'' then Inr (7, False, s)
          else if c = CHR ''b'' then Inr (8, False, s)
          else if c = CHR ''f'' then Inr (12, False, s)
          else if c = CHR ''n'' then Inr (10, False, s)
          else if c = CHR ''r'' then Inr (13, False, s)
          else if c = CHR ''t'' then Inr (9, False, s)
          else if c = CHR ''v'' then Inr (11, False, s)
          else if c = CHR ''x'' \<or> c = CHR ''u'' \<or> c = CHR ''U'' then
            (let n = (if c = CHR ''x'' then 2 else if c = CHR ''u'' then 4 else 8) in
             if length s < n then Inl ErrSyntax
             else case hex_value (take n s) 0 of
               None \<Rightarrow> Inl ErrSyntax
             | Some v \<Rightarrow>
                 if c = CHR ''x'' then Inr (int32 v, False, drop n s)
                 else if \<not> ValidRune (int32 v) then Inl ErrSyntax
                 else Inr (int32 v, True, drop n s))
          else if byte CHR ''0'' \<le> byte c \<and> byte c \<le> byte CHR ''7'' then
            (if length s < 2 then Inl ErrSyntax
             else case octal_value (take 2 s) (byte c - byte CHR ''0'') of
               None \<Rightarrow> Inl ErrSyntax
             | Some v \<Rightarrow> if v > 255 then Inl ErrSyntax else Inr (int v, False, drop 2 s))
          else if c = CHR 0x5C then Inr (int (byte CHR 0x5C), False, s)
          else if c = CHR 0x27 \<or> c = CHR 0x22 then
            (if c \<noteq> quote then Inl ErrSyntax else Inr (int (byte c), False, s))
          else Inl ErrSyntax)"

definition contains :: "string \<Rightarrow> char \<Rightarrow> bool" where
  "contains s c = (c \<in> set s)"

text \<open>
  The loop of \<^verbatim>\<open>Unquote\<close> over the text between the quotes: \<open>buf\<close> collects the
  bytes decoded so far.
\<close>

function unquote_loop :: "char \<Rightarrow> string \<Rightarrow> string \<Rightarrow> go_error + string" where
  "unquote_loop quote s buf =
     (if length s > 0 then
        (case UnquoteChar s quote of
           Inl err \<Rightarrow> Inl err
         | Inr (c, multibyte, ss) \<Rightarrow>
             let buf = (if c < int RuneSelf \<or> \<not> multibyte
                        then buf @ [char_of (nat (c mod 256))]
                        else buf @ EncodeRune (nat c)) in
             if quote = CHR 0x27 \<and> length ss \<noteq> 0 then Inl ErrSyntax
             else unquote_loop quote ss buf)
      else Inr buf)"
  by pat_completeness auto
termination
proof (relation "measure (\<lambda>(quote, s, buf). length s)")
  show "wf (measure (\<lambda>(quote, s, buf). length s))"
    by simp
next
  fix quote :: char and s buf :: string and x2 :: "int \<times> bool \<times> string"
    and c :: int and y :: "bool \<times> string" and multibyte :: bool and ss :: string
    and bufa :: string
  assume nonempty: "0 < length s"
    and step: "UnquoteChar s quote = Inr x2" "(c, y) = x2" "(multibyte, ss) = y"
  have "UnquoteChar s quote = Inr (c, multibyte, ss)"
    using step by simp
  then have "length ss < length s"
    using nonempty
    by (auto simp: UnquoteChar_def DecodeRuneInString_def Let_def
        split: if_splits option.splits prod.splits)
  then show "((quote, ss, bufa), (quote, s, buf)) \<in> measure (\<lambda>(quote, s, buf). length s)"
    by simp
qed

definition Unquote :: "string \<Rightarrow> go_error + string" where
  "Unquote s0 =
     (let n = length s0 in
      if n < 2 then Inl ErrSyntax
      else
        let quote = s0 ! 0 in
        if quote \<noteq> s0 ! (n - 1) then Inl ErrSyntax
        else
          let s = take (n - 2) (drop 1 s0) in
          if quote = CHR 0x60 then
            (if contains s (CHR 0x60) then Inl ErrSyntax
             else if contains s (CHR 0x0D) then Inr (filter (\<lambda>b. b \<noteq> CHR 0x0D) s)
             else Inr s)
          else if quote \<noteq> CHR 0x22 \<and> quote \<noteq> CHR 0x27 then Inl ErrSyntax
          else if contains s (CHR 0x0A) then Inl ErrSyntax
          else if \<not> contains s (CHR 0x5C) \<and> \<not> contains s quote \<and>
                  (if quote = CHR 0x22 then ValidString s
                   else (case DecodeRuneInString s of (r, sz) \<Rightarrow>
                           sz = length s \<and> \<not> (r = RuneError \<and> sz = 1)))
          then Inr s
          else unquote_loop quote s [])"

section \<open>The schema and the resource data\<close>

text \<open>
  The attributes the schema of \<^verbatim>\<open>resourceAwsApiGatewayRestApi\<close> declares, with
  their Go types: \<^verbatim>\<open>TypeString\<close> is a string, \<^verbatim>\<open>TypeInt\<close> an int (no
  arithmetic is done on it, only comparison and printing), \<^verbatim>\<open>TypeList\<close> a list.
  An \<^verbatim>\<open>endpoint_configuration\<close> block is the map with the one key
  \<^verbatim>\<open>types\<close>. The entries of \<^verbatim>\<open>binary_media_types\<close> are interface
  values, which the schema does not validate: an entry is a string or \<^verbatim>\<open>nil\<close>
  (\<open>None\<close>), as the host hands over an entry that is the empty string. The entries
  of \<^verbatim>\<open>types\<close> are validated to be one of the endpoint types, so they are
  strings.
\<close>

record endpoint_configuration_block =
  types :: "string list"

record attributes =
  name :: string
  description :: string
  policy :: string
  binary_media_types :: "string option list"
  body :: string
  minimum_compression_size :: int
  root_resource_id :: string
  created_date :: string
  execution_arn :: string
  endpoint_configuration :: "endpoint_configuration_block list"

text \<open>
  \<^verbatim>\<open>schema.ResourceData\<close>: the identifier, the prior state (the old side of
  \<^verbatim>\<open>GetChange\<close>) and the current values (what \<^verbatim>\<open>Get\<close> returns and
  \<^verbatim>\<open>Set\<close> writes). A field is addressed by its selector.
\<close>

record ResourceData =
  Id :: string
  old_values :: attributes
  new_values :: attributes

definition Get :: "ResourceData \<Rightarrow> (attributes \<Rightarrow> 'a) \<Rightarrow> 'a" where
  "Get d key = key (new_values d)"

definition GetChange :: "ResourceData \<Rightarrow> (attributes \<Rightarrow> 'a) \<Rightarrow> 'a \<times> 'a" where
  "GetChange d key = (key (old_values d), key (new_values d))"

definition HasChange :: "ResourceData \<Rightarrow> (attributes \<Rightarrow> 'a) \<Rightarrow> bool" where
  "HasChange d key = (case GetChange d key of (o', n) \<Rightarrow> o' \<noteq> n)"

text \<open>
  \<^verbatim>\<open>GetOk\<close> also says whether the value differs from the zero value of its type;
  this file calls it on strings and lists only, whose zero value is empty.
\<close>

definition GetOk :: "ResourceData \<Rightarrow> (attributes \<Rightarrow> 'a list) \<Rightarrow> 'a list \<times> bool" where
  "GetOk d key = (Get d key, Get d key \<noteq> [])"

text \<open>
  The nested key \<^verbatim>\<open>endpoint_configuration.0.types\<close>: the types of the first
  block, and the zero value (the empty list) when there is no block.
\<close>

definition endpoint_configuration_0_types :: "attributes \<Rightarrow> string list" where
  "endpoint_configuration_0_types a =
     (case endpoint_configuration a of [] \<Rightarrow> [] | m # _ \<Rightarrow> types m)"

definition SetId :: "string \<Rightarrow> ResourceData \<Rightarrow> ResourceData" where
  "SetId v d = d\<lparr>Id := v\<rparr>"

section \<open>The remote service\<close>

record PatchOperation =
  Op :: "string option"
  Path :: "string option"
  Value :: "string option"
  From :: "string option"

text \<open>
  The request and response structures of the SDK, with the fields this file reads or
  writes. A \<^verbatim>\<open>*string\<close> or \<^verbatim>\<open>*int64\<close> field is an option
  (\<open>None\<close> is \<^verbatim>\<open>nil\<close>); \<^verbatim>\<open>CreatedDate\<close> is an instant, only ever
  passed to the formatting function. The inputs of \<^verbatim>\<open>GetResources\<close>,
  \<^verbatim>\<open>GetRestApi\<close> and \<^verbatim>\<open>DeleteRestApi\<close> carry the one field
  \<^verbatim>\<open>RestApiId\<close>.
\<close>

record EndpointConfiguration =
  Types :: "string list"

record CreateRestApiInput =
  Name :: "string option"
  Description :: "string option"
  EndpointConfiguration :: "EndpointConfiguration option"
  Policy :: "string option"
  BinaryMediaTypes :: "string list option"
  MinimumCompressionSize :: "int option"

record PutRestApiInput =
  RestApiId :: "string option"
  Mode :: "string option"
  Body :: string

record UpdateRestApiInput =
  RestApiId :: "string option"
  PatchOperations :: "PatchOperation list"

record RestApi =
  Id :: "string option"
  Name :: "string option"
  Description :: "string option"
  Policy :: "string option"
  BinaryMediaTypes :: "string list"
  MinimumCompressionSize :: "int option"
  CreatedDate :: "nat option"
  EndpointConfiguration :: "EndpointConfiguration option"

record Resource =
  Id :: "string option"
  Path :: "string option"

record GetResourcesOutput =
  Items :: "Resource list"

datatype api_call =
    CreateRestApiCall CreateRestApiInput
  | PutRestApiCall PutRestApiInput
  | GetResourcesCall "string option"
  | GetRestApiCall "string option"
  | UpdateRestApiCall UpdateRestApiInput
  | DeleteRestApiCall "string option"

text \<open>
  The client \<^verbatim>\<open>conn\<close> of the remote service. The service is any deterministic
  one: the answer to a call is a function of the calls made before it (the log) and of
  the request. Every call a handler makes is appended to the log, so the log of a run
  is the sequence of remote calls in the order the handler issued them.
\<close>

record apigateway_client =
  CreateRestApi :: "api_call list \<Rightarrow> CreateRestApiInput \<Rightarrow> go_error + RestApi"
  PutRestApi :: "api_call list \<Rightarrow> PutRestApiInput \<Rightarrow> go_error + RestApi"
  GetResources :: "api_call list \<Rightarrow> string option \<Rightarrow> go_error + GetResourcesOutput"
  GetRestApi :: "api_call list \<Rightarrow> string option \<Rightarrow> go_error + RestApi"
  UpdateRestApi :: "api_call list \<Rightarrow> UpdateRestApiInput \<Rightarrow> go_error + RestApi"
  DeleteRestApi :: "api_call list \<Rightarrow> string option \<Rightarrow> go_error + unit"

record AWSClient =
  apigateway :: apigateway_client
  partition :: string
  region :: string
  accountid :: string

definition StringValue :: "string option \<Rightarrow> string" where
  "StringValue v = (case v of None \<Rightarrow> [] | Some x \<Rightarrow> x)"

record ARN =
  Partition :: string
  Service :: string
  Region :: string
  AccountID :: string
  Resource :: string

definition ARN_String :: "ARN \<Rightarrow> string" where
  "ARN_String a =
     ''arn:'' @ Partition a @ '':'' @ Service a @ '':'' @ Region a @ '':'' @ AccountID a
       @ '':'' @ Resource a"

text \<open>
  Helpers of the provider that live in other files of the repository, and the time
  formatting of the standard library: the handlers take them as parameters, so what is
  proved holds for every implementation of them. \<^verbatim>\<open>expandStringList\<close> takes a
  list of interface values.
\<close>

record helpers =
  escapeJsonPointer :: "string \<Rightarrow> string"
  expandStringList :: "string option list \<Rightarrow> string list"
  flattenStringList :: "string list \<Rightarrow> string list"
  Format_RFC3339 :: "nat \<Rightarrow> string"

section \<open>The update diff generator\<close>

definition replace_op :: "string \<Rightarrow> string \<Rightarrow> PatchOperation" where
  "replace_op p v = \<lparr>Op = Some ''replace'', Path = Some p, Value = Some v, From = None\<rparr>"

definition binary_media_type_op :: "helpers \<Rightarrow> string \<Rightarrow> string \<Rightarrow> PatchOperation" where
  "binary_media_type_op h opname v =
     \<lparr>Op = Some opname,
      Path = Some (''/'' @ ''binaryMediaTypes'' @ ''/'' @ escapeJsonPointer h v),
      Value = None, From = None\<rparr>"

text \<open>
  One \<^verbatim>\<open>for _, v := range\<close> loop over a list of binary media types: each
  entry is an interface value, asserted to be a string by \<^verbatim>\<open>v.(string)\<close>
  before one operation named \<open>opname\<close> is appended for it. An entry that is
  \<^verbatim>\<open>nil\<close> (\<open>None\<close>) makes the assertion panic, at the first such entry.
\<close>

fun binary_media_type_loop ::
    "helpers \<Rightarrow> string \<Rightarrow> string option list \<Rightarrow> PatchOperation list
       \<Rightarrow> go_panic + PatchOperation list" where
  "binary_media_type_loop h opname [] operations = Inr operations"
| "binary_media_type_loop h opname (v # vs) operations =
     (case v of
        None \<Rightarrow> Inl InterfaceConversion
      | Some s \<Rightarrow>
          binary_media_type_loop h opname vs (operations @ [binary_media_type_op h opname s]))"

text \<open>
  \<^verbatim>\<open>resourceAwsApiGatewayRestApiUpdateOperations\<close>: the slice
  \<^verbatim>\<open>operations\<close> is threaded through the six \<^verbatim>\<open>if d.HasChange(...)\<close>
  blocks in the order of the source. A panic in the block of the binary media types
  ends the function there, before the last block is reached. The last block indexes
  \<^verbatim>\<open>m["types"].([]interface{})[0]\<close>, which panics on an empty list; the
  entries of \<^verbatim>\<open>types\<close> have passed the validation function of the schema and
  are strings.
\<close>

definition resourceAwsApiGatewayRestApiUpdateOperations ::
    "helpers \<Rightarrow> ResourceData \<Rightarrow> go_panic + PatchOperation list" where
  "resourceAwsApiGatewayRestApiUpdateOperations h d =
    (let operations = [];
         operations =
           (if HasChange d name
            then operations @ [replace_op ''/name'' (Get d name)]
            else operations);
         operations =
           (if HasChange d description
            then operations @ [replace_op ''/description'' (Get d description)]
            else operations);
         operations =
           (if HasChange d policy
            then operations @ [replace_op ''/policy'' (Get d policy)]
            else operations);
         operations =
           (if HasChange d minimum_compression_size
            then (let minimumCompressionSize = Get d minimum_compression_size;
                      v = (if minimumCompressionSize > - 1 then Itoa minimumCompressionSize else [])
                  in operations @ [replace_op ''/minimumCompressionSize'' v])
            else operations)
     in case (if HasChange d binary_media_types
              then (case GetChange d binary_media_types of (old, new) \<Rightarrow>
                     (case binary_media_type_loop h ''remove'' old operations of
                        Inl p \<Rightarrow> Inl p
                      | Inr operations \<Rightarrow>
                          if length new > 0
                          then binary_media_type_loop h ''add'' new operations
                          else Inr operations))
              else Inr operations) of
          Inl p \<Rightarrow> Inl p
        | Inr operations \<Rightarrow>
            if HasChange d endpoint_configuration_0_types
            then (case GetOk d endpoint_configuration of (v, ok) \<Rightarrow>
                   if ok \<and> length v > 0
                   then (case types (v ! 0) of
                           [] \<Rightarrow> Inl IndexOutOfRange
                         | t # _ \<Rightarrow>
                             Inr (operations @ [replace_op ''/endpointConfiguration/types/0'' t]))
                   else Inr operations)
            else Inr operations)"

section \<open>The callbacks\<close>

text \<open>
  A callback takes the helpers, the provider's \<^verbatim>\<open>meta\<close>, the resource data and
  the log of remote calls so far, and returns its outcome, the resource data as it
  left them and the extended log. \<^verbatim>\<open>d.Set\<close> of a value of the attribute's type
  does not fail; a \<^verbatim>\<open>nil\<close> string pointer sets the empty string.
\<close>

type_synonym callback_result = "outcome \<times> ResourceData \<times> api_call list"

definition Set_attr :: "(attributes \<Rightarrow> attributes) \<Rightarrow> ResourceData \<Rightarrow> ResourceData" where
  "Set_attr upd d = d\<lparr>new_values := upd (new_values d)\<rparr>"

definition expandApiGatewayEndpointConfiguration ::
    "helpers \<Rightarrow> endpoint_configuration_block list \<Rightarrow> EndpointConfiguration option" where
  "expandApiGatewayEndpointConfiguration h l =
     (if length l = 0 then None
      else let m = l ! 0 in Some \<lparr>Types = expandStringList h (map Some (types m))\<rparr>)"

definition flattenApiGatewayEndpointConfiguration ::
    "helpers \<Rightarrow> EndpointConfiguration option \<Rightarrow> endpoint_configuration_block list" where
  "flattenApiGatewayEndpointConfiguration h endpointConfiguration =
     (case endpointConfiguration of
        None \<Rightarrow> []
      | Some e \<Rightarrow> [\<lparr>types = flattenStringList h (Types e)\<rparr>])"

text \<open>
  The loop of \<^verbatim>\<open>resourceAwsApiGatewayRestApiRefreshResources\<close>: the first item
  whose path is the root sets \<^verbatim>\<open>root_resource_id\<close> and ends the loop;
  dereferencing a \<^verbatim>\<open>nil\<close> path panics.
\<close>

fun scan_items :: "Resource list \<Rightarrow> ResourceData \<Rightarrow> outcome \<times> ResourceData" where
  "scan_items [] d = (ReturnNil, d)"
| "scan_items (item # items) d =
     (case Resource.Path item of
        None \<Rightarrow> (Panicked NilPointerDereference, d)
      | Some p \<Rightarrow>
          if p = ''/''
          then (ReturnNil, Set_attr (root_resource_id_update (\<lambda>_. StringValue (Resource.Id item))) d)
          else scan_items items d)"

definition resourceAwsApiGatewayRestApiRefreshResources ::
    "AWSClient \<Rightarrow> ResourceData \<Rightarrow> api_call list \<Rightarrow> callback_result" where
  "resourceAwsApiGatewayRestApiRefreshResources meta d log =
     (let conn = apigateway meta;
          input = Some (ResourceData.Id d);
          log' = log @ [GetResourcesCall input] in
      case GetResources conn log input of
        Inl err \<Rightarrow> (ReturnError err, d, log')
      | Inr resp \<Rightarrow> (case scan_items (Items resp) d of (r, d) \<Rightarrow> (r, d, log')))"

definition resourceAwsApiGatewayRestApiRead ::
    "helpers \<Rightarrow> AWSClient \<Rightarrow> ResourceData \<Rightarrow> api_call list \<Rightarrow> callback_result" where
  "resourceAwsApiGatewayRestApiRead h meta d log =
     (let conn = apigateway meta;
          input = Some (ResourceData.Id d);
          log' = log @ [GetRestApiCall input] in
      case GetRestApi conn log input of
        Inl err \<Rightarrow>
          (case err of
             AwsError code message \<Rightarrow>
               if code = ''NotFoundException''
               then (ReturnNil, SetId [] d, log')
               else (ReturnError err, d, log')
           | _ \<Rightarrow> (ReturnError err, d, log'))
      | Inr api \<Rightarrow>
          let d = Set_attr (name_update (\<lambda>_. StringValue (RestApi.Name api))) d;
              d = Set_attr (description_update (\<lambda>_. StringValue (RestApi.Description api))) d in
          case Unquote ([CHR 0x22] @ StringValue (RestApi.Policy api) @ [CHR 0x22]) of
            Inl err \<Rightarrow> (ReturnError (Errorf ''error unescaping policy: '' err), d, log')
          | Inr policy' \<Rightarrow>
              let d = Set_attr (policy_update (\<lambda>_. policy')) d;
                  d = Set_attr (binary_media_types_update (\<lambda>_. map Some (RestApi.BinaryMediaTypes api))) d;
                  arn = ARN_String \<lparr>Partition = partition meta, Service = ''execute-api'',
                          Region = region meta, AccountID = accountid meta,
                          Resource = ResourceData.Id d\<rparr>;
                  d = Set_attr (execution_arn_update (\<lambda>_. arn)) d;
                  d = (case RestApi.MinimumCompressionSize api of
                         None \<Rightarrow> Set_attr (minimum_compression_size_update (\<lambda>_. - 1)) d
                       | Some v \<Rightarrow> Set_attr (minimum_compression_size_update (\<lambda>_. v)) d) in
              case CreatedDate api of
                None \<Rightarrow> (Panicked NilPointerDereference, d, log')
              | Some t \<Rightarrow>
                  let d = Set_attr (created_date_update (\<lambda>_. Format_RFC3339 h t)) d;
                      d = Set_attr (endpoint_configuration_update
                            (\<lambda>_. flattenApiGatewayEndpointConfiguration h
                                   (RestApi.EndpointConfiguration api))) d
                  in (ReturnNil, d, log'))"

definition PutModeOverwrite :: string where
  "PutModeOverwrite = ''overwrite''"

definition resourceAwsApiGatewayRestApiCreate ::
    "helpers \<Rightarrow> AWSClient \<Rightarrow> ResourceData \<Rightarrow> api_call list \<Rightarrow> callback_result" where
  "resourceAwsApiGatewayRestApiCreate h meta d log =
     (let conn = apigateway meta;
          description' = (if Get d description \<noteq> [] then Some (Get d description) else None);
          params = \<lparr>CreateRestApiInput.Name = Some (Get d name), Description = description',
                    EndpointConfiguration = None, Policy = None, BinaryMediaTypes = None,
                    MinimumCompressionSize = None\<rparr>;
          params = (case GetOk d endpoint_configuration of (v, ok) \<Rightarrow>
                      if ok
                      then params\<lparr>CreateRestApiInput.EndpointConfiguration :=
                                    expandApiGatewayEndpointConfiguration h v\<rparr>
                      else params);
          params = (case GetOk d policy of (v, ok) \<Rightarrow>
                      if ok \<and> v \<noteq> [] then params\<lparr>CreateRestApiInput.Policy := Some v\<rparr>
                      else params);
          params = (case GetOk d binary_media_types of (binaryMediaTypes, binaryMediaTypesOk) \<Rightarrow>
                      if binaryMediaTypesOk
                      then params\<lparr>CreateRestApiInput.BinaryMediaTypes :=
                                    Some (expandStringList h binaryMediaTypes)\<rparr>
                      else params);
          minimumCompressionSize = Get d minimum_compression_size;
          params = (if minimumCompressionSize > - 1
                    then params\<lparr>CreateRestApiInput.MinimumCompressionSize :=
                                  Some minimumCompressionSize\<rparr>
                    else params);
          log' = log @ [CreateRestApiCall params] in
      case CreateRestApi conn log params of
        Inl err \<Rightarrow> (ReturnError (Errorf ''Error creating API Gateway: '' err), d, log')
      | Inr gateway \<Rightarrow>
          (case RestApi.Id gateway of
             None \<Rightarrow> (Panicked NilPointerDereference, d, log')
           | Some gateway_id \<Rightarrow>
               let d = SetId gateway_id d;
                   refresh_and_read = (\<lambda>log.
                     case resourceAwsApiGatewayRestApiRefreshResources meta d log of
                       (ReturnNil, d, log) \<Rightarrow> resourceAwsApiGatewayRestApiRead h meta d log
                     | (r, d, log) \<Rightarrow> (r, d, log)) in
               case GetOk d body of (body', ok) \<Rightarrow>
                 if ok
                 then (let input = \<lparr>PutRestApiInput.RestApiId = RestApi.Id gateway,
                                      Mode = Some PutModeOverwrite, Body = body'\<rparr>;
                           log'' = log' @ [PutRestApiCall input] in
                       case PutRestApi conn log' input of
                         Inl err \<Rightarrow>
                           (ReturnError
                              (Wrapf ''Error creating API Gateway specification: {{err}}'' err),
                            d, log'')
                       | Inr _ \<Rightarrow> refresh_and_read log'')
                 else refresh_and_read log'))"

definition resourceAwsApiGatewayRestApiUpdate ::
    "helpers \<Rightarrow> AWSClient \<Rightarrow> ResourceData \<Rightarrow> api_call list \<Rightarrow> callback_result" where
  "resourceAwsApiGatewayRestApiUpdate h meta d log =
     (let conn = apigateway meta;
          patch_and_read = (\<lambda>log.
            case resourceAwsApiGatewayRestApiUpdateOperations h d of
              Inl p \<Rightarrow> (Panicked p, d, log)
            | Inr operations \<Rightarrow>
                let input = \<lparr>RestApiId = Some (ResourceData.Id d),
                               PatchOperations = operations\<rparr>;
                    log' = log @ [UpdateRestApiCall input] in
                case UpdateRestApi conn log input of
                  Inl err \<Rightarrow> (ReturnError err, d, log')
                | Inr _ \<Rightarrow> resourceAwsApiGatewayRestApiRead h meta d log') in
      if HasChange d body
      then (case GetOk d body of (body', ok) \<Rightarrow>
              if ok
              then (let input = \<lparr>PutRestApiInput.RestApiId = Some (ResourceData.Id d),
                                   Mode = Some PutModeOverwrite, Body = body'\<rparr>;
                        log' = log @ [PutRestApiCall input] in
                    case PutRestApi conn log input of
                      Inl err \<Rightarrow>
                        (ReturnError
                           (Wrapf ''Error updating API Gateway specification: {{err}}'' err),
                         d, log')
                    | Inr _ \<Rightarrow> patch_and_read log')
              else patch_and_read log)
      else patch_and_read log)"

text \<open>
  \<^verbatim>\<open>resource.Retry(timeout, f)\<close> of the host's helper library: it calls \<open>f\<close>
  until \<open>f\<close> returns \<^verbatim>\<open>nil\<close> (success) or a non-retryable error (returned at
  once); after a retryable error it waits and calls \<open>f\<close> again while the timeout has
  not passed, and returns the last error when it has. The timeout is counted in
  calls: \<open>retries\<close> is the number of further calls that fit into it.
\<close>

datatype RetryError = NonRetryableError go_error | RetryableError go_error

fun Retry :: "nat \<Rightarrow> (api_call list \<Rightarrow> RetryError option \<times> api_call list) \<Rightarrow>
    api_call list \<Rightarrow> go_error option \<times> api_call list" where
  "Retry retries f log =
     (case f log of
        (None, log') \<Rightarrow> (None, log')
      | (Some (NonRetryableError err), log') \<Rightarrow> (Some err, log')
      | (Some (RetryableError err), log') \<Rightarrow>
          (case retries of 0 \<Rightarrow> (Some err, log') | Suc n \<Rightarrow> Retry n f log'))"

text \<open>
  \<^verbatim>\<open>resourceAwsApiGatewayRestApiDelete\<close>; \<open>retries\<close> stands for the ten
  minutes handed to \<^verbatim>\<open>resource.Retry\<close>.
\<close>

definition resourceAwsApiGatewayRestApiDelete ::
    "nat \<Rightarrow> AWSClient \<Rightarrow> ResourceData \<Rightarrow> api_call list \<Rightarrow> callback_result" where
  "resourceAwsApiGatewayRestApiDelete retries meta d log =
     (let conn = apigateway meta;
          f = (\<lambda>log.
            let input = Some (ResourceData.Id d);
                log' = log @ [DeleteRestApiCall input] in
            case DeleteRestApi conn log input of
              Inr _ \<Rightarrow> (None, log')
            | Inl err \<Rightarrow>
                (case err of
                   AwsError code message \<Rightarrow>
                     if code = ''NotFoundException'' then (None, log')
                     else (Some (NonRetryableError err), log')
                 | _ \<Rightarrow> (Some (NonRetryableError err), log'))) in
      case Retry retries f log of
        (None, log') \<Rightarrow> (ReturnNil, d, log')
      | (Some err, log') \<Rightarrow> (ReturnError err, d, log'))"

section \<open>Vocabulary of the claims and example data\<close>

text \<open>
  A patch operation is under a path when its \<^verbatim>\<open>Path\<close> starts with it: the
  operations of the binary media types all lie under \<^verbatim>\<open>/binaryMediaTypes\<close>.
\<close>

definition under_path :: "string \<Rightarrow> PatchOperation \<Rightarrow> bool" where
  "under_path p op =
     (case PatchOperation.Path op of None \<Rightarrow> False | Some q \<Rightarrow> prefix p q)"

text \<open>
  The inputs on which the block of the binary media types panics: the list changed and
  its old or its new value holds a \<^verbatim>\<open>nil\<close> entry. The schema declares no
  validation of the entries of \<^verbatim>\<open>binary_media_types\<close>.
\<close>

definition nil_entry_panics :: "ResourceData \<Rightarrow> bool" where
  "nil_entry_panics d =
     (HasChange d binary_media_types \<and>
      (None \<in> set (fst (GetChange d binary_media_types)) \<or>
       None \<in> set (snd (GetChange d binary_media_types))))"

text \<open>
  The input on which the block of the endpoint configuration panics: the types changed,
  the new configuration has a block, and the list of types of that block is empty. The
  schema (\<^verbatim>\<open>MinItems: 1\<close> on \<^verbatim>\<open>types\<close>) keeps the host from passing it.
\<close>

definition update_panics :: "ResourceData \<Rightarrow> bool" where
  "update_panics d =
     (HasChange d endpoint_configuration_0_types \<and> Get d endpoint_configuration \<noteq> [] \<and>
      types (Get d endpoint_configuration ! 0) = [])"

text \<open>
  The schema demands at least one type in every endpoint configuration block
  (\<^verbatim>\<open>MinItems: 1\<close> on \<^verbatim>\<open>types\<close>); on values that meet this demand the
  block of the endpoint configuration does not panic.
\<close>

definition types_present :: "attributes \<Rightarrow> bool" where
  "types_present a = list_all (\<lambda>m. types m \<noteq> []) (endpoint_configuration a)"

text \<open>
  Modelled from the spec: \<^verbatim>\<open>escapeJsonPointer\<close> is defined in another file of the
  provider; the spec calls it JSON-pointer escaping of a path segment, which is
  \<^verbatim>\<open>~\<close> to \<^verbatim>\<open>~0\<close> and \<^verbatim>\<open>/\<close> to \<^verbatim>\<open>~1\<close>. It is used in the examples
  only: every theorem below holds for any escaping function. The other helpers of the
  examples keep the strings of a list and format every instant alike.
\<close>

fun json_pointer_escape :: "string \<Rightarrow> string" where
  "json_pointer_escape [] = []"
| "json_pointer_escape (c # cs) =
     (if c = CHR ''~'' then ''~0'' @ json_pointer_escape cs
      else if c = CHR ''/'' then ''~1'' @ json_pointer_escape cs
      else c # json_pointer_escape cs)"

definition example_helpers :: helpers where
  "example_helpers =
     \<lparr>escapeJsonPointer = json_pointer_escape, expandStringList = List.map_filter (\<lambda>v. v),
      flattenStringList = (\<lambda>l. l), Format_RFC3339 = (\<lambda>t. ''2018-04-01T00:00:00Z'')\<rparr>"

definition example_attributes :: attributes where
  "example_attributes =
     \<lparr>name = ''api'', description = ''demo'', policy = [],
      binary_media_types = [Some ''image/png'', Some ''a~b''], body = [],
      minimum_compression_size = 0, root_resource_id = ''root'', created_date = [],
      execution_arn = [], endpoint_configuration = [\<lparr>types = [''EDGE'']\<rparr>]\<rparr>"

text \<open>An update that changes four fields at once.\<close>

definition example_update :: ResourceData where
  "example_update =
     \<lparr>ResourceData.Id = ''abc123'', old_values = example_attributes,
      new_values = example_attributes
        \<lparr>name := ''api2'', minimum_compression_size := 1024,
         binary_media_types := [Some ''a~b'', Some ''text/css''],
         endpoint_configuration := [\<lparr>types = [''REGIONAL'']\<rparr>]\<rparr>\<rparr>"

text \<open>An update that only replaces the binary media types \<open>[A, B]\<close> by \<open>[B, C]\<close>.\<close>

definition example_media_types :: ResourceData where
  "example_media_types =
     \<lparr>ResourceData.Id = ''abc123'', old_values = example_attributes,
      new_values = example_attributes
        \<lparr>binary_media_types := [Some ''a~b'', Some ''text/css'']\<rparr>\<rparr>"

text \<open>
  An update that appends an entry that reaches the callback as \<^verbatim>\<open>nil\<close> to the
  binary media types, and the same update when it also removes the endpoint
  configuration.
\<close>

definition example_nil_entry :: ResourceData where
  "example_nil_entry =
     \<lparr>ResourceData.Id = ''abc123'', old_values = example_attributes,
      new_values = example_attributes
        \<lparr>binary_media_types := [Some ''image/png'', Some ''a~b'', None]\<rparr>\<rparr>"


text \<open>An update that switches compression off: the size goes from 0 to the sentinel.\<close>

definition example_disable_compression :: ResourceData where
  "example_disable_compression =
     \<lparr>ResourceData.Id = ''abc123'', old_values = example_attributes,
      new_values = example_attributes\<lparr>minimum_compression_size := - 1\<rparr>\<rparr>"



text \<open>
  A remote service for the examples: every call succeeds and returns the same REST API,
  whose only resource is the root.
\<close>

definition example_api :: RestApi where
  "example_api =
     \<lparr>RestApi.Id = Some ''abc123'', Name = Some ''api'', Description = Some ''demo'',
      Policy = None, BinaryMediaTypes = [''image/png''], MinimumCompressionSize = None,
      CreatedDate = Some 0, EndpointConfiguration = Some \<lparr>Types = [''EDGE'']\<rparr>\<rparr>"

definition example_client :: apigateway_client where
  "example_client =
     \<lparr>CreateRestApi = (\<lambda>log input. Inr example_api),
      PutRestApi = (\<lambda>log input. Inr example_api),
      GetResources = (\<lambda>log input.
        Inr \<lparr>Items = [\<lparr>Resource.Id = Some ''root'', Path = Some ''/''\<rparr>]\<rparr>),
      GetRestApi = (\<lambda>log input. Inr example_api),
      UpdateRestApi = (\<lambda>log input. Inr example_api),
      DeleteRestApi = (\<lambda>log input. Inr ())\<rparr>"

definition example_meta :: AWSClient where
  "example_meta =
     \<lparr>apigateway = example_client, partition = ''aws'', region = ''us-east-1'',
      accountid = ''123456789012''\<rparr>"

text \<open>The data of a create: no prior state, compression unset, no description.\<close>

definition example_create :: ResourceData where
  "example_create =
     \<lparr>ResourceData.Id = [], old_values = example_attributes,
      new_values = example_attributes
        \<lparr>description := [], minimum_compression_size := - 1\<rparr>\<rparr>"

text \<open>
  Three other services: one on which the REST API does not exist, one whose first
  delete call is throttled and whose later calls succeed, and one that rejects every
  definition document.
\<close>

definition absent_client :: apigateway_client where
  "absent_client =
     example_client
       \<lparr>GetRestApi := (\<lambda>log input.
          Inl (AwsError ''NotFoundException'' ''Invalid API identifier specified'')),
        DeleteRestApi := (\<lambda>log input.
          Inl (AwsError ''NotFoundException'' ''Invalid API identifier specified''))\<rparr>"

definition throttled_client :: apigateway_client where
  "throttled_client =
     example_client
       \<lparr>DeleteRestApi := (\<lambda>log input.
          if log = [] then Inl (AwsError ''TooManyRequestsException'' ''Too Many Requests'')
          else Inr ())\<rparr>"

definition rejecting_client :: apigateway_client where
  "rejecting_client =
     example_client
       \<lparr>PutRestApi := (\<lambda>log input.
          Inl (AwsError ''BadRequestException'' ''Invalid OpenAPI input''))\<rparr>"

text \<open>A resource in the state, unchanged; one whose body changes; one whose body is removed.\<close>

definition example_existing :: ResourceData where
  "example_existing =
     \<lparr>ResourceData.Id = ''abc123'', old_values = example_attributes,
      new_values = example_attributes\<rparr>"

definition example_new_body :: ResourceData where
  "example_new_body =
     \<lparr>ResourceData.Id = ''abc123'', old_values = example_attributes,
      new_values = example_attributes\<lparr>body := ''openapi: 3.0.1''\<rparr>\<rparr>"

definition example_clear_body :: ResourceData where
  "example_clear_body =
     \<lparr>ResourceData.Id = ''abc123'',
      old_values = example_attributes\<lparr>body := ''openapi: 3.0.1''\<rparr>,
      new_values = example_attributes\<rparr>"

text \<open>
  Modelled from the spec: the escaping of the policy is done by the remote service, whose
  code is no part of the repository. The spec says that the service returns the policy
  string-escaped one extra level, with embedded backslash-escaped quotes, and the
  source that the policy is an escaped JSON string: one level of backslash-escaping puts
  a backslash before every double quote and before every backslash, and writes a line
  feed as backslash and \<^verbatim>\<open>n\<close>. Every other byte stays as it is.
\<close>

fun escape_one_level :: "string \<Rightarrow> string" where
  "escape_one_level [] = []"
| "escape_one_level (c # cs) =
     (if c = CHR 0x22 \<or> c = CHR 0x5C then CHR 0x5C # c # escape_one_level cs
      else if c = CHR 0x0A then CHR 0x5C # CHR ''n'' # escape_one_level cs
      else c # escape_one_level cs)"

text \<open>
  Two policy documents, both JSON text: one on a single line, with quotes, and the
  empty object written on two lines. A service that answers a lookup with the escaped
  form of a given policy, and one that answers with a policy that is not the escaped
  form of any text: it ends in a lone backslash.
\<close>

definition example_policy :: string where
  "example_policy =
     ''{'' @ [CHR 0x22] @ ''Version'' @ [CHR 0x22] @ '':'' @ [CHR 0x22] @ ''2012-10-17''
       @ [CHR 0x22] @ ''}''"

definition two_line_policy :: string where
  "two_line_policy = ''{'' @ [CHR 0x0A] @ ''}''"

definition policy_client :: "string \<Rightarrow> apigateway_client" where
  "policy_client p =
     example_client
       \<lparr>GetRestApi := (\<lambda>log input.
          Inr (example_api\<lparr>RestApi.Policy := Some (escape_one_level p)\<rparr>))\<rparr>"

definition malformed_policy_client :: apigateway_client where
  "malformed_policy_client =
     example_client
       \<lparr>GetRestApi := (\<lambda>log input.
          Inr (example_api\<lparr>RestApi.Policy := Some (''{}'' @ [CHR 0x5C])\<rparr>))\<rparr>"

section \<open>Facts about the diff generator\<close>

declare FormatUint.simps [simp del] ValidString.simps [simp del]
  unquote_loop.simps [simp del] Retry.simps [simp del]

lemma FormatUint_1024: "FormatUint 1024 = ''1024''"
  by (simp add: digit_def FormatUint.simps)

lemma binary_media_type_loop_eq:
  "binary_media_type_loop h opname vs acc =
     (if None \<in> set vs then Inl InterfaceConversion
      else Inr (acc @ map (binary_media_type_op h opname) (map the vs)))"
  by (induction vs arbitrary: acc) (auto split: option.splits)

lemma update_operations_eq:
  "resourceAwsApiGatewayRestApiUpdateOperations h d =
     (if nil_entry_panics d then Inl InterfaceConversion
      else if update_panics d then Inl IndexOutOfRange
      else Inr (
        (if HasChange d name then [replace_op ''/name'' (Get d name)] else []) @
        (if HasChange d description then [replace_op ''/description'' (Get d description)] else []) @
        (if HasChange d policy then [replace_op ''/policy'' (Get d policy)] else []) @
        (if HasChange d minimum_compression_size
         then [replace_op ''/minimumCompressionSize''
                 (if Get d minimum_compression_size > - 1
                  then Itoa (Get d minimum_compression_size) else [])]
         else []) @
        (if HasChange d binary_media_types
         then map (binary_media_type_op h ''remove'')
                (map the (fst (GetChange d binary_media_types))) @
              map (binary_media_type_op h ''add'')
                (map the (snd (GetChange d binary_media_types)))
         else []) @
        (if HasChange d endpoint_configuration_0_types \<and> Get d endpoint_configuration \<noteq> []
         then [replace_op ''/endpointConfiguration/types/0''
                 (types (Get d endpoint_configuration ! 0) ! 0)]
         else [])))"
  unfolding resourceAwsApiGatewayRestApiUpdateOperations_def update_panics_def Let_def
    binary_media_type_loop_eq GetOk_def nil_entry_panics_def case_prod_beta
  by (cases "types (Get d endpoint_configuration ! 0)") simp_all

lemma update_operations_groups:
  "resourceAwsApiGatewayRestApiUpdateOperations h d = Inr ops \<Longrightarrow>
   ops =
        (if HasChange d name then [replace_op ''/name'' (Get d name)] else []) @
        (if HasChange d description then [replace_op ''/description'' (Get d description)] else []) @
        (if HasChange d policy then [replace_op ''/policy'' (Get d policy)] else []) @
        (if HasChange d minimum_compression_size
         then [replace_op ''/minimumCompressionSize''
                 (if Get d minimum_compression_size > - 1
                  then Itoa (Get d minimum_compression_size) else [])]
         else []) @
        (if HasChange d binary_media_types
         then map (binary_media_type_op h ''remove'')
                (map the (fst (GetChange d binary_media_types))) @
              map (binary_media_type_op h ''add'')
                (map the (snd (GetChange d binary_media_types)))
         else []) @
        (if HasChange d endpoint_configuration_0_types \<and> Get d endpoint_configuration \<noteq> []
         then [replace_op ''/endpointConfiguration/types/0''
                 (types (Get d endpoint_configuration ! 0) ! 0)]
         else [])"
  by (cases "nil_entry_panics d"; cases "update_panics d")
    (simp_all only: update_operations_eq if_True if_False sum.inject sum.distinct)

lemma types_present_no_panic:
  assumes "types_present (new_values d)"
  shows "\<not> update_panics d"
proof
  assume panics: "update_panics d"
  then have "Get d endpoint_configuration ! 0 \<in> set (endpoint_configuration (new_values d))"
    by (simp add: update_panics_def Get_def)
  then have "types (Get d endpoint_configuration ! 0) \<noteq> []"
    using assms by (simp add: types_present_def list_all_iff)
  then show False
    using panics by (simp add: update_panics_def)
qed

lemma update_operations_returns:
  assumes "types_present (new_values d)" and "\<not> nil_entry_panics d"
  obtains ops where "resourceAwsApiGatewayRestApiUpdateOperations h d = Inr ops"
  using types_present_no_panic [OF assms(1)] assms(2)
  by (simp only: update_operations_eq if_False)

lemma filter_if_list: "filter P (if c then xs else []) = (if c then filter P xs else [])"
  by simp

lemma under_path_replace_op: "under_path q (replace_op p v) = prefix q p"
  by (simp add: under_path_def replace_op_def)

lemma under_path_binary_media_type_op:
  "under_path q (binary_media_type_op h opname v) =
     prefix q (''/binaryMediaTypes/'' @ escapeJsonPointer h v)"
  by (simp add: under_path_def binary_media_type_op_def)

section \<open>Claims about the update diff generator\<close>

text \<open>
  Claim C5. On every pair of old and new values that meets the schema's demand on the
  endpoint types, the diff generator behaves in one of two ways. Where the list of
  binary media types changed and its old or new value holds a \<^verbatim>\<open>nil\<close> entry, it
  panics on the type assertion of that entry and returns no operation. Everywhere else
  it returns the groups of the changed fields in the fixed order name, description,
  policy, minimum compression size, binary media types, endpoint configuration type: a
  field that did not change contributes the empty group, a changed scalar field one
  replace operation, the changed binary media types one remove per old entry and then
  one add per new entry. (The group of a changed endpoint type is empty when the new
  configuration has no block.)
\<close>

theorem update_operations_fixed_order:
  assumes "types_present (new_values d)"
  shows "resourceAwsApiGatewayRestApiUpdateOperations h d =
     (if nil_entry_panics d then Inl InterfaceConversion
      else Inr (
        (if HasChange d name
         then [\<lparr>Op = Some ''replace'', Path = Some ''/name'',
                 Value = Some (Get d name), From = None\<rparr>]
         else []) @
        (if HasChange d description
         then [\<lparr>Op = Some ''replace'', Path = Some ''/description'',
                 Value = Some (Get d description), From = None\<rparr>]
         else []) @
        (if HasChange d policy
         then [\<lparr>Op = Some ''replace'', Path = Some ''/policy'',
                 Value = Some (Get d policy), From = None\<rparr>]
         else []) @
        (if HasChange d minimum_compression_size
         then [\<lparr>Op = Some ''replace'', Path = Some ''/minimumCompressionSize'',
                 Value = Some (if Get d minimum_compression_size > - 1
                               then Itoa (Get d minimum_compression_size) else []),
                 From = None\<rparr>]
         else []) @
        (if HasChange d binary_media_types
         then map (\<lambda>v. \<lparr>Op = Some ''remove'',
                          Path = Some (''/binaryMediaTypes/'' @ escapeJsonPointer h (the v)),
                          Value = None, From = None\<rparr>)
                (fst (GetChange d binary_media_types)) @
              map (\<lambda>v. \<lparr>Op = Some ''add'',
                          Path = Some (''/binaryMediaTypes/'' @ escapeJsonPointer h (the v)),
                          Value = None, From = None\<rparr>)
                (snd (GetChange d binary_media_types))
         else []) @
        (if HasChange d endpoint_configuration_0_types \<and> Get d endpoint_configuration \<noteq> []
         then [\<lparr>Op = Some ''replace'', Path = Some ''/endpointConfiguration/types/0'',
                 Value = Some (types (Get d endpoint_configuration ! 0) ! 0), From = None\<rparr>]
         else [])))"
proof -
  have remove: "map (binary_media_type_op h opname) (map the vs) =
      map (\<lambda>v. \<lparr>Op = Some opname,
                  Path = Some (''/binaryMediaTypes/'' @ escapeJsonPointer h (the v)),
                  Value = None, From = None\<rparr>) vs" for opname vs
    by (simp add: binary_media_type_op_def comp_def)
  show ?thesis
    using types_present_no_panic [OF assms]
    by (simp only: update_operations_eq if_False remove replace_op_def)
qed

theorem update_operations_fixed_order_witness:
  "types_present (new_values example_update)
   \<and> resourceAwsApiGatewayRestApiUpdateOperations example_helpers example_update =
     Inr [\<lparr>Op = Some ''replace'', Path = Some ''/name'', Value = Some ''api2'', From = None\<rparr>,
          \<lparr>Op = Some ''replace'', Path = Some ''/minimumCompressionSize'',
            Value = Some ''1024'', From = None\<rparr>,
          \<lparr>Op = Some ''remove'', Path = Some ''/binaryMediaTypes/image~1png'',
            Value = None, From = None\<rparr>,
          \<lparr>Op = Some ''remove'', Path = Some ''/binaryMediaTypes/a~0b'',
            Value = None, From = None\<rparr>,
          \<lparr>Op = Some ''add'', Path = Some ''/binaryMediaTypes/a~0b'',
            Value = None, From = None\<rparr>,
          \<lparr>Op = Some ''add'', Path = Some ''/binaryMediaTypes/text~1css'',
            Value = None, From = None\<rparr>,
          \<lparr>Op = Some ''replace'', Path = Some ''/endpointConfiguration/types/0'',
            Value = Some ''REGIONAL'', From = None\<rparr>]
   \<and> types_present (new_values example_nil_entry)
   \<and> GetChange example_nil_entry binary_media_types =
       ([Some ''image/png'', Some ''a~b''], [Some ''image/png'', Some ''a~b'', None])
   \<and> resourceAwsApiGatewayRestApiUpdateOperations example_helpers example_nil_entry =
       Inl InterfaceConversion"
proof -
  have present: "types_present (new_values example_update)"
    by (simp add: types_present_def example_update_def example_attributes_def)
  have returned: "resourceAwsApiGatewayRestApiUpdateOperations example_helpers example_update =
     Inr [\<lparr>Op = Some ''replace'', Path = Some ''/name'', Value = Some ''api2'', From = None\<rparr>,
          \<lparr>Op = Some ''replace'', Path = Some ''/minimumCompressionSize'',
            Value = Some ''1024'', From = None\<rparr>,
          \<lparr>Op = Some ''remove'', Path = Some ''/binaryMediaTypes/image~1png'',
            Value = None, From = None\<rparr>,
          \<lparr>Op = Some ''remove'', Path = Some ''/binaryMediaTypes/a~0b'',
            Value = None, From = None\<rparr>,
          \<lparr>Op = Some ''add'', Path = Some ''/binaryMediaTypes/a~0b'',
            Value = None, From = None\<rparr>,
          \<lparr>Op = Some ''add'', Path = Some ''/binaryMediaTypes/text~1css'',
            Value = None, From = None\<rparr>,
          \<lparr>Op = Some ''replace'', Path = Some ''/endpointConfiguration/types/0'',
            Value = Some ''REGIONAL'', From = None\<rparr>]"
    unfolding update_operations_fixed_order [OF present]
    by (simp add: nil_entry_panics_def HasChange_def GetChange_def Get_def
        endpoint_configuration_0_types_def example_update_def example_attributes_def
        example_helpers_def Itoa_def FormatUint_1024)
  have present_nil: "types_present (new_values example_nil_entry)"
    by (simp add: types_present_def example_nil_entry_def example_attributes_def)
  have change: "GetChange example_nil_entry binary_media_types =
       ([Some ''image/png'', Some ''a~b''], [Some ''image/png'', Some ''a~b'', None])"
    by (simp add: GetChange_def example_nil_entry_def example_attributes_def)
  have panicked: "resourceAwsApiGatewayRestApiUpdateOperations example_helpers
      example_nil_entry = Inl InterfaceConversion"
    unfolding update_operations_fixed_order [OF present_nil]
    by (simp add: nil_entry_panics_def HasChange_def change)
  from present returned present_nil change panicked show ?thesis
    by simp
qed

text \<open>
  Claim C4. Let the binary media types change from the list \<open>old\<close> to the list \<open>new\<close>,
  on values that meet the schema's demand on the endpoint types. Where \<open>old\<close> or
  \<open>new\<close> holds a \<^verbatim>\<open>nil\<close> entry, the diff generator panics on the type assertion
  of that entry and returns no operation. Where all their entries are strings, it
  returns, and the operations under \<^verbatim>\<open>/binaryMediaTypes\<close> are exactly one remove
  per entry of \<open>old\<close>, in the order of \<open>old\<close>, followed by one add per entry of
  \<open>new\<close>, in the order of \<open>new\<close>, each with the escaped entry in its path; they stand
  together, and no operation before or after them is under that path. Entries that
  occur in both lists are removed and added again.
\<close>

theorem binary_media_types_remove_then_add:
  assumes "GetChange d binary_media_types = (old, new)" and "old \<noteq> new"
    and "types_present (new_values d)"
  shows "(None \<in> set old \<or> None \<in> set new \<longrightarrow>
            resourceAwsApiGatewayRestApiUpdateOperations h d = Inl InterfaceConversion)
       \<and> (old = map Some olds \<and> new = map Some news \<longrightarrow>
            (\<exists>before after.
               resourceAwsApiGatewayRestApiUpdateOperations h d =
                 Inr (before
                     @ map (\<lambda>v. \<lparr>Op = Some ''remove'',
                                  Path = Some (''/binaryMediaTypes/'' @ escapeJsonPointer h v),
                                  Value = None, From = None\<rparr>) olds
                     @ map (\<lambda>v. \<lparr>Op = Some ''add'',
                                  Path = Some (''/binaryMediaTypes/'' @ escapeJsonPointer h v),
                                  Value = None, From = None\<rparr>) news
                     @ after)
               \<and> filter (under_path ''/binaryMediaTypes'') (before @ after) = []))"
proof (intro conjI impI)
  have changed: "HasChange d binary_media_types"
    using assms(1,2) by (simp add: HasChange_def)
  {
    assume "None \<in> set old \<or> None \<in> set new"
    then have "nil_entry_panics d"
      using changed assms(1) by (simp add: nil_entry_panics_def)
    then show "resourceAwsApiGatewayRestApiUpdateOperations h d = Inl InterfaceConversion"
      by (simp only: update_operations_eq if_True)
  }
  assume strings: "old = map Some olds \<and> new = map Some news"
  then have "\<not> nil_entry_panics d"
    using assms(1) by (auto simp add: nil_entry_panics_def)
  then obtain ops where returned: "resourceAwsApiGatewayRestApiUpdateOperations h d = Inr ops"
    using update_operations_returns [OF assms(3)] by blast
  let ?before =
       "(if HasChange d name then [replace_op ''/name'' (Get d name)] else []) @
        (if HasChange d description
         then [replace_op ''/description'' (Get d description)] else []) @
        (if HasChange d policy then [replace_op ''/policy'' (Get d policy)] else []) @
        (if HasChange d minimum_compression_size
         then [replace_op ''/minimumCompressionSize''
                 (if Get d minimum_compression_size > - 1
                  then Itoa (Get d minimum_compression_size) else [])]
         else [])"
  let ?after =
       "(if HasChange d endpoint_configuration_0_types \<and> Get d endpoint_configuration \<noteq> []
         then [replace_op ''/endpointConfiguration/types/0''
                 (types (Get d endpoint_configuration ! 0) ! 0)]
         else [])"
  have ops: "ops = ?before @ map (binary_media_type_op h ''remove'') olds
                 @ map (binary_media_type_op h ''add'') news @ ?after"
    using update_operations_groups [OF returned] changed assms(1) strings
    by (simp add: comp_def split del: if_split)
  have remove: "binary_media_type_op h ''remove'' =
      (\<lambda>v. \<lparr>Op = Some ''remove'', Path = Some (''/binaryMediaTypes/'' @ escapeJsonPointer h v),
            Value = None, From = None\<rparr>)"
    by (rule ext) (simp add: binary_media_type_op_def)
  have add: "binary_media_type_op h ''add'' =
      (\<lambda>v. \<lparr>Op = Some ''add'', Path = Some (''/binaryMediaTypes/'' @ escapeJsonPointer h v),
            Value = None, From = None\<rparr>)"
    by (rule ext) (simp add: binary_media_type_op_def)
  have clean: "filter (under_path ''/binaryMediaTypes'') (?before @ ?after) = []"
    by (simp add: under_path_replace_op)
  show "\<exists>before after.
               resourceAwsApiGatewayRestApiUpdateOperations h d =
                 Inr (before
                     @ map (\<lambda>v. \<lparr>Op = Some ''remove'',
                                  Path = Some (''/binaryMediaTypes/'' @ escapeJsonPointer h v),
                                  Value = None, From = None\<rparr>) olds
                     @ map (\<lambda>v. \<lparr>Op = Some ''add'',
                                  Path = Some (''/binaryMediaTypes/'' @ escapeJsonPointer h v),
                                  Value = None, From = None\<rparr>) news
                     @ after)
               \<and> filter (under_path ''/binaryMediaTypes'') (before @ after) = []"
    using returned ops clean unfolding remove add by blast
qed

theorem binary_media_types_remove_then_add_witness:
  "GetChange example_media_types binary_media_types =
       (map Some [''image/png'', ''a~b''], map Some [''a~b'', ''text/css''])
   \<and> map Some [''image/png'', ''a~b''] \<noteq> map Some [''a~b'', ''text/css'']
   \<and> types_present (new_values example_media_types)
   \<and> resourceAwsApiGatewayRestApiUpdateOperations example_helpers example_media_types =
       Inr [\<lparr>Op = Some ''remove'', Path = Some ''/binaryMediaTypes/image~1png'',
              Value = None, From = None\<rparr>,
            \<lparr>Op = Some ''remove'', Path = Some ''/binaryMediaTypes/a~0b'',
              Value = None, From = None\<rparr>,
            \<lparr>Op = Some ''add'', Path = Some ''/binaryMediaTypes/a~0b'',
              Value = None, From = None\<rparr>,
            \<lparr>Op = Some ''add'', Path = Some ''/binaryMediaTypes/text~1css'',
              Value = None, From = None\<rparr>]
   \<and> GetChange example_nil_entry binary_media_types =
       ([Some ''image/png'', Some ''a~b''], [Some ''image/png'', Some ''a~b'', None])
   \<and> [Some ''image/png'', Some ''a~b''] \<noteq> [Some ''image/png'', Some ''a~b'', None]
   \<and> types_present (new_values example_nil_entry)
   \<and> None \<in> set [Some ''image/png'', Some ''a~b'', None]
   \<and> resourceAwsApiGatewayRestApiUpdateOperations example_helpers example_nil_entry =
       Inl InterfaceConversion"
proof -
  have change: "GetChange example_media_types binary_media_types =
      (map Some [''image/png'', ''a~b''], map Some [''a~b'', ''text/css''])"
    by (simp add: GetChange_def example_media_types_def example_attributes_def)
  have differ: "map Some [''image/png'', ''a~b''] \<noteq> map Some [''a~b'', ''text/css'']"
    by simp
  have present: "types_present (new_values example_media_types)"
    by (simp add: types_present_def example_media_types_def example_attributes_def)
  obtain before after where split:
    "resourceAwsApiGatewayRestApiUpdateOperations example_helpers example_media_types =
      Inr (before
       @ map (\<lambda>v. \<lparr>Op = Some ''remove'',
                    Path = Some (''/binaryMediaTypes/'' @ escapeJsonPointer example_helpers v),
                    Value = None, From = None\<rparr>) [''image/png'', ''a~b'']
       @ map (\<lambda>v. \<lparr>Op = Some ''add'',
                    Path = Some (''/binaryMediaTypes/'' @ escapeJsonPointer example_helpers v),
                    Value = None, From = None\<rparr>) [''a~b'', ''text/css'']
       @ after)"
    using binary_media_types_remove_then_add [OF change differ present] by blast
  have len: "\<And>ops. resourceAwsApiGatewayRestApiUpdateOperations example_helpers
      example_media_types = Inr ops \<Longrightarrow> length ops = 4"
    using update_operations_groups [of example_helpers example_media_types]
    by (simp add: HasChange_def GetChange_def endpoint_configuration_0_types_def
        example_media_types_def example_attributes_def)
  have "before = [] \<and> after = []"
    using len [OF split] by simp
  then have returned:
    "resourceAwsApiGatewayRestApiUpdateOperations example_helpers example_media_types =
       Inr [\<lparr>Op = Some ''remove'', Path = Some ''/binaryMediaTypes/image~1png'',
              Value = None, From = None\<rparr>,
            \<lparr>Op = Some ''remove'', Path = Some ''/binaryMediaTypes/a~0b'',
              Value = None, From = None\<rparr>,
            \<lparr>Op = Some ''add'', Path = Some ''/binaryMediaTypes/a~0b'',
              Value = None, From = None\<rparr>,
            \<lparr>Op = Some ''add'', Path = Some ''/binaryMediaTypes/text~1css'',
              Value = None, From = None\<rparr>]"
    unfolding split by (simp add: example_helpers_def)
  have change_nil: "GetChange example_nil_entry binary_media_types =
       ([Some ''image/png'', Some ''a~b''], [Some ''image/png'', Some ''a~b'', None])"
    by (simp add: GetChange_def example_nil_entry_def example_attributes_def)
  have differ_nil: "[Some ''image/png'', Some ''a~b''] \<noteq> [Some ''image/png'', Some ''a~b'', None]"
    by simp
  have present_nil: "types_present (new_values example_nil_entry)"
    by (simp add: types_present_def example_nil_entry_def example_attributes_def)
  have nil: "None \<in> set [Some ''image/png'', Some ''a~b'', None]"
    by simp
  have panicked: "resourceAwsApiGatewayRestApiUpdateOperations example_helpers
      example_nil_entry = Inl InterfaceConversion"
    using binary_media_types_remove_then_add [OF change_nil differ_nil present_nil] nil
    by blast
  from change differ present returned change_nil differ_nil present_nil nil panicked
  show ?thesis
    by (simp only: simp_thms)
qed




section \<open>Facts about the remote calls of the callbacks\<close>

lemma refresh_log:
  "snd (snd (resourceAwsApiGatewayRestApiRefreshResources meta d log)) =
     log @ [GetResourcesCall (Some (ResourceData.Id d))]"
  by (simp add: resourceAwsApiGatewayRestApiRefreshResources_def Let_def
      split: sum.splits prod.splits)

lemma refresh_logD:
  "resourceAwsApiGatewayRestApiRefreshResources meta d log = (r, d', log') \<Longrightarrow>
   log' = log @ [GetResourcesCall (Some (ResourceData.Id d))]"
  using refresh_log [of meta d log] by simp

lemma read_log:
  "snd (snd (resourceAwsApiGatewayRestApiRead h meta d log)) =
     log @ [GetRestApiCall (Some (ResourceData.Id d))]"
  by (simp add: resourceAwsApiGatewayRestApiRead_def Let_def
      split: sum.splits prod.splits option.splits go_error.splits)

text \<open>
  The first remote call of a create is \<^verbatim>\<open>CreateRestApi\<close>, and these are the
  name, the description and the minimum compression size of its request.
\<close>

lemma create_request:
  "\<exists>params rest.
     snd (snd (resourceAwsApiGatewayRestApiCreate h meta d log)) =
       log @ CreateRestApiCall params # rest \<and>
     CreateRestApiInput.Name params = Some (Get d name) \<and>
     CreateRestApiInput.Description params =
       (if Get d description \<noteq> [] then Some (Get d description) else None) \<and>
     CreateRestApiInput.MinimumCompressionSize params =
       (if Get d minimum_compression_size > - 1
        then Some (Get d minimum_compression_size) else None)"
proof -
  define description' where
    "description' = (if Get d description \<noteq> [] then Some (Get d description) else None)"
  define p0 where
    "p0 = \<lparr>CreateRestApiInput.Name = Some (Get d name), Description = description',
            EndpointConfiguration = None, Policy = None, BinaryMediaTypes = None,
            MinimumCompressionSize = None\<rparr>"
  define p1 where
    "p1 = (case GetOk d endpoint_configuration of (v, ok) \<Rightarrow>
             if ok
             then p0\<lparr>CreateRestApiInput.EndpointConfiguration :=
                        expandApiGatewayEndpointConfiguration h v\<rparr>
             else p0)"
  define p2 where
    "p2 = (case GetOk d policy of (v, ok) \<Rightarrow>
             if ok \<and> v \<noteq> [] then p1\<lparr>CreateRestApiInput.Policy := Some v\<rparr> else p1)"
  define p3 where
    "p3 = (case GetOk d binary_media_types of (binaryMediaTypes, binaryMediaTypesOk) \<Rightarrow>
             if binaryMediaTypesOk
             then p2\<lparr>CreateRestApiInput.BinaryMediaTypes :=
                        Some (expandStringList h binaryMediaTypes)\<rparr>
             else p2)"
  define params where
    "params = (if Get d minimum_compression_size > - 1
               then p3\<lparr>CreateRestApiInput.MinimumCompressionSize :=
                          Some (Get d minimum_compression_size)\<rparr>
               else p3)"
  have fields:
    "CreateRestApiInput.Name params = Some (Get d name)"
    "CreateRestApiInput.Description params = description'"
    "CreateRestApiInput.MinimumCompressionSize params =
       (if Get d minimum_compression_size > - 1
        then Some (Get d minimum_compression_size) else None)"
    by (simp_all add: params_def p3_def p2_def p1_def p0_def GetOk_def)
  have "\<exists>rest. snd (snd (resourceAwsApiGatewayRestApiCreate h meta d log)) =
       log @ CreateRestApiCall params # rest"
    unfolding resourceAwsApiGatewayRestApiCreate_def Let_def
      description'_def [symmetric] p0_def [symmetric] p1_def [symmetric] p2_def [symmetric]
      p3_def [symmetric] params_def [symmetric]
    by (auto simp: read_log dest!: refresh_logD
        split: sum.splits option.splits prod.splits outcome.splits)
  with fields show ?thesis
    unfolding description'_def by blast
qed

text \<open>The examples run: the create of \<open>example_create\<close> against the example service.\<close>

lemma Unquote_empty: "Unquote [CHR 0x22, CHR 0x22] = Inr []"
  by (simp add: Unquote_def contains_def ValidString.simps)

lemma example_create_run:
  "resourceAwsApiGatewayRestApiCreate example_helpers example_meta example_create [] =
     (ReturnNil,
      \<lparr>ResourceData.Id = ''abc123'', old_values = example_attributes,
       new_values =
         \<lparr>name = ''api'', description = ''demo'', policy = [],
          binary_media_types = [Some ''image/png''], body = [],
          minimum_compression_size = - 1,
          root_resource_id = ''root'', created_date = ''2018-04-01T00:00:00Z'',
          execution_arn = ''arn:aws:execute-api:us-east-1:123456789012:abc123'',
          endpoint_configuration = [\<lparr>types = [''EDGE'']\<rparr>]\<rparr>\<rparr>,
      [CreateRestApiCall
         \<lparr>CreateRestApiInput.Name = Some ''api'', Description = None,
          EndpointConfiguration = Some \<lparr>Types = [''EDGE'']\<rparr>, Policy = None,
          BinaryMediaTypes = Some [''image/png'', ''a~b''], MinimumCompressionSize = None\<rparr>,
       GetResourcesCall (Some ''abc123''),
       GetRestApiCall (Some ''abc123'')])"
  by (simp add: resourceAwsApiGatewayRestApiCreate_def
      resourceAwsApiGatewayRestApiRefreshResources_def resourceAwsApiGatewayRestApiRead_def
      expandApiGatewayEndpointConfiguration_def flattenApiGatewayEndpointConfiguration_def
      Let_def Get_def GetOk_def SetId_def Set_attr_def StringValue_def ARN_String_def
      Unquote_empty map_filter_simps
      example_create_def example_attributes_def example_meta_def example_client_def
      example_api_def example_helpers_def)

section \<open>Claims about the requests of create and update\<close>

lemma minimum_compression_size_operations:
  assumes "resourceAwsApiGatewayRestApiUpdateOperations h d = Inr ops"
  shows "filter (under_path ''/minimumCompressionSize'') ops =
          (if HasChange d minimum_compression_size
           then [replace_op ''/minimumCompressionSize''
                   (if Get d minimum_compression_size > - 1
                    then Itoa (Get d minimum_compression_size) else [])]
           else [])"
proof -
  have media: "filter (under_path ''/minimumCompressionSize'')
      (map (binary_media_type_op h opname) xs) = []" for opname xs
    by (induction xs) (simp_all add: under_path_binary_media_type_op)
  show ?thesis
    unfolding update_operations_groups [OF assms] filter_append filter_if_list media
    by (simp add: under_path_replace_op cong: if_cong split del: if_split)
qed

text \<open>
  Claim C1, as stated, fails on the update path: when the minimum compression size
  changes from 0 to the sentinel -1, the patch list does hold an operation for the
  field, the replace of \<^verbatim>\<open>/minimumCompressionSize\<close> with the empty string as value.
\<close>

theorem minimum_compression_size_patched_counterexample:
  "Get example_disable_compression minimum_compression_size = - 1
   \<and> resourceAwsApiGatewayRestApiUpdateOperations example_helpers example_disable_compression =
       Inr [\<lparr>Op = Some ''replace'', Path = Some ''/minimumCompressionSize'',
              Value = Some [], From = None\<rparr>]"
  by (simp add: update_operations_eq update_panics_def nil_entry_panics_def HasChange_def
      GetChange_def Get_def endpoint_configuration_0_types_def replace_op_def
      example_disable_compression_def example_attributes_def)

text \<open>
  Claim C1, amended. For every desired state whose minimum compression size is -1, the
  request of the \<^verbatim>\<open>CreateRestApi\<close> call that create issues has no minimum
  compression size; and, on values that meet the schema's demand on the endpoint types
  and whose changed binary media types hold no \<^verbatim>\<open>nil\<close> entry, the diff generator of
  update returns a patch list that has no operation under
  \<^verbatim>\<open>/minimumCompressionSize\<close> when the field did not change, and exactly one when
  it changed: the replace with the empty string as value. (What the generator does on a
  \<^verbatim>\<open>nil\<close> entry is no part of this statement.)
\<close>

theorem minimum_compression_size_unset:
  assumes "Get d minimum_compression_size = - 1"
  shows "(\<exists>params rest.
            snd (snd (resourceAwsApiGatewayRestApiCreate h meta d log)) =
              log @ CreateRestApiCall params # rest \<and>
            CreateRestApiInput.MinimumCompressionSize params = None)
       \<and> (types_present (new_values d) \<and> \<not> nil_entry_panics d \<longrightarrow>
            (\<exists>ops. resourceAwsApiGatewayRestApiUpdateOperations h d = Inr ops \<and>
               filter (under_path ''/minimumCompressionSize'') ops =
                 (if HasChange d minimum_compression_size
                  then [\<lparr>Op = Some ''replace'', Path = Some ''/minimumCompressionSize'',
                          Value = Some [], From = None\<rparr>]
                  else [])))"
proof (intro conjI impI)
  show "\<exists>params rest.
      snd (snd (resourceAwsApiGatewayRestApiCreate h meta d log)) =
        log @ CreateRestApiCall params # rest \<and>
      CreateRestApiInput.MinimumCompressionSize params = None"
    using create_request [of h meta d log] assms by auto
next
  assume "types_present (new_values d) \<and> \<not> nil_entry_panics d"
  then obtain ops where ops: "resourceAwsApiGatewayRestApiUpdateOperations h d = Inr ops"
    using update_operations_returns by blast
  have "filter (under_path ''/minimumCompressionSize'') ops =
      (if HasChange d minimum_compression_size
       then [\<lparr>Op = Some ''replace'', Path = Some ''/minimumCompressionSize'',
               Value = Some [], From = None\<rparr>]
       else [])"
    using minimum_compression_size_operations [OF ops] assms by (simp add: replace_op_def)
  with ops show "\<exists>ops. resourceAwsApiGatewayRestApiUpdateOperations h d = Inr ops \<and>
      filter (under_path ''/minimumCompressionSize'') ops =
        (if HasChange d minimum_compression_size
         then [\<lparr>Op = Some ''replace'', Path = Some ''/minimumCompressionSize'',
                 Value = Some [], From = None\<rparr>]
         else [])"
    by blast
qed

theorem minimum_compression_size_unset_witness:
  "Get example_create minimum_compression_size = - 1
   \<and> (\<exists>params rest.
         snd (snd (resourceAwsApiGatewayRestApiCreate example_helpers example_meta
                     example_create [])) = CreateRestApiCall params # rest \<and>
         CreateRestApiInput.MinimumCompressionSize params = None)
   \<and> Get example_disable_compression minimum_compression_size = - 1
   \<and> types_present (new_values example_disable_compression)
   \<and> \<not> nil_entry_panics example_disable_compression
   \<and> HasChange example_disable_compression minimum_compression_size
   \<and> resourceAwsApiGatewayRestApiUpdateOperations example_helpers example_disable_compression =
       Inr [\<lparr>Op = Some ''replace'', Path = Some ''/minimumCompressionSize'',
              Value = Some [], From = None\<rparr>]
   \<and> filter (under_path ''/minimumCompressionSize'')
        [\<lparr>Op = Some ''replace'', Path = Some ''/minimumCompressionSize'',
           Value = Some [], From = None\<rparr>] =
       [\<lparr>Op = Some ''replace'', Path = Some ''/minimumCompressionSize'',
          Value = Some [], From = None\<rparr>]"
proof -
  have unset: "Get example_create minimum_compression_size = - 1"
    by (simp add: Get_def example_create_def)
  have disabled: "Get example_disable_compression minimum_compression_size = - 1"
    by (simp add: Get_def example_disable_compression_def)
  have present: "types_present (new_values example_disable_compression)"
    by (simp add: types_present_def example_disable_compression_def example_attributes_def)
  have strings: "\<not> nil_entry_panics example_disable_compression"
    by (simp add: nil_entry_panics_def HasChange_def GetChange_def
        example_disable_compression_def example_attributes_def)
  have changed: "HasChange example_disable_compression minimum_compression_size"
    by (simp add: HasChange_def GetChange_def example_disable_compression_def
        example_attributes_def)
  have ops: "resourceAwsApiGatewayRestApiUpdateOperations example_helpers
      example_disable_compression =
       Inr [\<lparr>Op = Some ''replace'', Path = Some ''/minimumCompressionSize'',
              Value = Some [], From = None\<rparr>]"
    by (simp add: update_operations_eq update_panics_def nil_entry_panics_def HasChange_def
        GetChange_def Get_def endpoint_configuration_0_types_def replace_op_def
        example_disable_compression_def example_attributes_def)
  show ?thesis
    using minimum_compression_size_unset [OF unset, of example_helpers example_meta "[]"]
      minimum_compression_size_unset [OF disabled, of example_helpers example_meta "[]"]
      unset disabled present strings changed ops
    by simp
qed

text \<open>
  Claim C10. The request of the \<^verbatim>\<open>CreateRestApi\<close> call that create issues carries
  no description (\<^verbatim>\<open>nil\<close>) when the desired description is the empty string, and
  carries the desired description otherwise.
\<close>

theorem create_description_only_when_nonempty:
  "\<exists>params rest.
     snd (snd (resourceAwsApiGatewayRestApiCreate h meta d log)) =
       log @ CreateRestApiCall params # rest \<and>
     CreateRestApiInput.Description params =
       (if Get d description = [] then None else Some (Get d description))"
  using create_request [of h meta d log] by auto

theorem create_description_only_when_nonempty_witness:
  "Get example_create description = []
   \<and> (\<exists>rest.
         snd (snd (resourceAwsApiGatewayRestApiCreate example_helpers example_meta
                     example_create [])) =
           CreateRestApiCall
             \<lparr>CreateRestApiInput.Name = Some ''api'', Description = None,
              EndpointConfiguration = Some \<lparr>Types = [''EDGE'']\<rparr>, Policy = None,
              BinaryMediaTypes = Some [''image/png'', ''a~b''],
              MinimumCompressionSize = None\<rparr> # rest)"
proof -
  have empty: "Get example_create description = []"
    by (simp add: Get_def example_create_def)
  have "\<exists>rest.
         snd (snd (resourceAwsApiGatewayRestApiCreate example_helpers example_meta
                     example_create [])) =
           CreateRestApiCall
             \<lparr>CreateRestApiInput.Name = Some ''api'', Description = None,
              EndpointConfiguration = Some \<lparr>Types = [''EDGE'']\<rparr>, Policy = None,
              BinaryMediaTypes = Some [''image/png'', ''a~b''],
              MinimumCompressionSize = None\<rparr> # rest"
    using create_description_only_when_nonempty
      [of example_helpers example_meta example_create "[]"]
    by (simp add: example_create_run)
  with empty show ?thesis
    by blast
qed

section \<open>Claims about read and delete\<close>

text \<open>
  Claim C7. When the remote lookup of a read fails with an error of the SDK whose code
  is \<^verbatim>\<open>NotFoundException\<close>, read clears the identifier of the resource data and
  returns \<^verbatim>\<open>nil\<close>; when the lookup fails with any other error, read returns that
  error and leaves the resource data as they were.
\<close>

theorem read_not_found_clears_id:
  assumes "GetRestApi (apigateway meta) log (Some (ResourceData.Id d)) = Inl err"
  shows "((\<exists>message. err = AwsError ''NotFoundException'' message) \<longrightarrow>
            resourceAwsApiGatewayRestApiRead h meta d log =
              (ReturnNil, d\<lparr>ResourceData.Id := []\<rparr>,
               log @ [GetRestApiCall (Some (ResourceData.Id d))]))
       \<and> (\<not> (\<exists>message. err = AwsError ''NotFoundException'' message) \<longrightarrow>
            resourceAwsApiGatewayRestApiRead h meta d log =
              (ReturnError err, d, log @ [GetRestApiCall (Some (ResourceData.Id d))]))"
  using assms
  by (cases err) (simp_all add: resourceAwsApiGatewayRestApiRead_def Let_def SetId_def)

theorem read_not_found_clears_id_witness:
  "GetRestApi (apigateway (example_meta\<lparr>apigateway := absent_client\<rparr>)) []
       (Some (ResourceData.Id example_existing)) =
     Inl (AwsError ''NotFoundException'' ''Invalid API identifier specified'')
   \<and> resourceAwsApiGatewayRestApiRead example_helpers
       (example_meta\<lparr>apigateway := absent_client\<rparr>) example_existing [] =
       (ReturnNil,
        \<lparr>ResourceData.Id = [], old_values = example_attributes,
         new_values = example_attributes\<rparr>,
        [GetRestApiCall (Some ''abc123'')])"
proof -
  have lookup: "GetRestApi (apigateway (example_meta\<lparr>apigateway := absent_client\<rparr>)) []
       (Some (ResourceData.Id example_existing)) =
     Inl (AwsError ''NotFoundException'' ''Invalid API identifier specified'')"
    by (simp add: absent_client_def)
  show ?thesis
    using read_not_found_clears_id [OF lookup, of example_helpers] lookup
    by (simp add: example_existing_def)
qed

text \<open>
  Claim C9. When the remote delete call answers with an error of the SDK whose code is
  \<^verbatim>\<open>NotFoundException\<close>, delete returns \<^verbatim>\<open>nil\<close> after that one call, whatever
  the time allowed for retries.
\<close>

theorem delete_not_found_is_success:
  assumes "DeleteRestApi (apigateway meta) log (Some (ResourceData.Id d)) =
             Inl (AwsError ''NotFoundException'' message)"
  shows "resourceAwsApiGatewayRestApiDelete retries meta d log =
           (ReturnNil, d, log @ [DeleteRestApiCall (Some (ResourceData.Id d))])"
  using assms
  by (simp add: resourceAwsApiGatewayRestApiDelete_def Let_def Retry.simps)

theorem delete_not_found_is_success_witness:
  "DeleteRestApi (apigateway (example_meta\<lparr>apigateway := absent_client\<rparr>)) []
       (Some (ResourceData.Id example_existing)) =
     Inl (AwsError ''NotFoundException'' ''Invalid API identifier specified'')
   \<and> resourceAwsApiGatewayRestApiDelete 1200 (example_meta\<lparr>apigateway := absent_client\<rparr>)
       example_existing [] =
       (ReturnNil, example_existing, [DeleteRestApiCall (Some ''abc123'')])"
proof -
  have answer: "DeleteRestApi (apigateway (example_meta\<lparr>apigateway := absent_client\<rparr>)) []
       (Some (ResourceData.Id example_existing)) =
     Inl (AwsError ''NotFoundException'' ''Invalid API identifier specified'')"
    by (simp add: absent_client_def)
  show ?thesis
    using delete_not_found_is_success [OF answer, of 1200] answer
    by (simp add: example_existing_def)
qed

text \<open>
  Claim C2, as stated, fails: delete classifies every error other than not-found as
  non-retryable. On the service whose first delete call is throttled and whose second
  call would succeed, delete returns the throttling error after the first call, with
  time for 1200 more calls left.
\<close>

theorem delete_transient_failure_counterexample:
  "DeleteRestApi throttled_client [DeleteRestApiCall (Some ''abc123'')] (Some ''abc123'') = Inr ()
   \<and> resourceAwsApiGatewayRestApiDelete 1200 (example_meta\<lparr>apigateway := throttled_client\<rparr>)
       example_existing [] =
       (ReturnError (AwsError ''TooManyRequestsException'' ''Too Many Requests''),
        example_existing, [DeleteRestApiCall (Some ''abc123'')])"
  by (simp add: resourceAwsApiGatewayRestApiDelete_def Let_def Retry.simps
      throttled_client_def example_existing_def)

text \<open>
  Claim C2, amended. Every delete invocation issues the remote delete call exactly
  once, whatever the time allowed for retries: it returns \<^verbatim>\<open>nil\<close> when the call
  succeeds or answers not-found, and returns the error of the call, transient or not,
  in every other case. Nothing is retried.
\<close>

theorem delete_calls_once:
  "resourceAwsApiGatewayRestApiDelete retries meta d log =
     ((case DeleteRestApi (apigateway meta) log (Some (ResourceData.Id d)) of
         Inr _ \<Rightarrow> ReturnNil
       | Inl err \<Rightarrow>
           (case err of
              AwsError code message \<Rightarrow>
                if code = ''NotFoundException'' then ReturnNil else ReturnError err
            | _ \<Rightarrow> ReturnError err)),
      d, log @ [DeleteRestApiCall (Some (ResourceData.Id d))])"
  by (simp add: resourceAwsApiGatewayRestApiDelete_def Let_def Retry.simps
      split: sum.splits go_error.splits)

theorem delete_calls_once_witness:
  "resourceAwsApiGatewayRestApiDelete 1200 example_meta example_existing [] =
     (ReturnNil, example_existing, [DeleteRestApiCall (Some ''abc123'')])"
  using delete_calls_once [of 1200 example_meta example_existing "[]"]
  by (simp add: example_meta_def example_client_def example_existing_def)

section \<open>Claims about update\<close>

text \<open>
  Claim C3, as stated, fails: when the body changes to the empty string (the body is
  removed from the configuration), update issues no overwrite call; its remote calls
  are the patch call and the read-back.
\<close>

theorem update_body_removed_counterexample:
  "HasChange example_clear_body body
   \<and> fst (resourceAwsApiGatewayRestApiUpdate example_helpers example_meta
            example_clear_body []) = ReturnNil
   \<and> snd (snd (resourceAwsApiGatewayRestApiUpdate example_helpers example_meta
                  example_clear_body [])) =
       [UpdateRestApiCall \<lparr>RestApiId = Some ''abc123'', PatchOperations = []\<rparr>,
        GetRestApiCall (Some ''abc123'')]"
  by (simp add: resourceAwsApiGatewayRestApiUpdate_def resourceAwsApiGatewayRestApiRead_def
      update_operations_eq update_panics_def nil_entry_panics_def Let_def HasChange_def
      GetChange_def Get_def GetOk_def endpoint_configuration_0_types_def Set_attr_def StringValue_def Unquote_empty
      example_clear_body_def example_attributes_def example_meta_def example_client_def
      example_api_def)

text \<open>
  Claim C3, amended. For every update invocation in which the body changed and the new
  body is not empty, the first remote call is the overwrite call
  (\<^verbatim>\<open>PutRestApi\<close> in mode \<^verbatim>\<open>overwrite\<close>) with the whole new body. When that
  call fails, update stops there and returns its error wrapped as
  \<^verbatim>\<open>Error updating API Gateway specification\<close>; when it succeeds, the next remote
  call is the patch call with the operations of the diff generator.
\<close>

theorem update_body_overwrite_first:
  assumes "HasChange d body" and "Get d body \<noteq> []"
    and "input = \<lparr>PutRestApiInput.RestApiId = Some (ResourceData.Id d),
                   Mode = Some ''overwrite'', Body = Get d body\<rparr>"
  shows "\<exists>rest.
           snd (snd (resourceAwsApiGatewayRestApiUpdate h meta d log)) =
             log @ PutRestApiCall input # rest
           \<and> (case PutRestApi (apigateway meta) log input of
                 Inl err \<Rightarrow>
                   rest = [] \<and>
                   fst (resourceAwsApiGatewayRestApiUpdate h meta d log) =
                     ReturnError
                       (Wrapf ''Error updating API Gateway specification: {{err}}'' err)
               | Inr _ \<Rightarrow>
                   (case resourceAwsApiGatewayRestApiUpdateOperations h d of
                      Inl p \<Rightarrow> rest = []
                    | Inr ops \<Rightarrow>
                        (\<exists>rest'. rest =
                           UpdateRestApiCall
                             \<lparr>RestApiId = Some (ResourceData.Id d), PatchOperations = ops\<rparr>
                           # rest')))"
proof (cases "PutRestApi (apigateway meta) log input")
  case (Inl err)
  then show ?thesis
    using assms
    by (simp add: resourceAwsApiGatewayRestApiUpdate_def Let_def GetOk_def
        PutModeOverwrite_def)
next
  case (Inr api)
  show ?thesis
  proof (cases "resourceAwsApiGatewayRestApiUpdateOperations h d")
    case (Inl p)
    then show ?thesis
      using assms Inr
      by (simp add: resourceAwsApiGatewayRestApiUpdate_def Let_def GetOk_def
          PutModeOverwrite_def)
  next
    case ops: (Inr ops)
    then show ?thesis
      using assms Inr
      by (simp add: resourceAwsApiGatewayRestApiUpdate_def Let_def GetOk_def
          PutModeOverwrite_def read_log split: sum.splits)
  qed
qed

theorem update_body_overwrite_first_witness:
  "HasChange example_new_body body \<and> Get example_new_body body \<noteq> []
   \<and> snd (snd (resourceAwsApiGatewayRestApiUpdate example_helpers example_meta
                  example_new_body [])) =
       [PutRestApiCall \<lparr>PutRestApiInput.RestApiId = Some ''abc123'',
                         Mode = Some ''overwrite'', Body = ''openapi: 3.0.1''\<rparr>,
        UpdateRestApiCall \<lparr>RestApiId = Some ''abc123'', PatchOperations = []\<rparr>,
        GetRestApiCall (Some ''abc123'')]
   \<and> resourceAwsApiGatewayRestApiUpdate example_helpers
       (example_meta\<lparr>apigateway := rejecting_client\<rparr>) example_new_body [] =
       (ReturnError
          (Wrapf ''Error updating API Gateway specification: {{err}}''
             (AwsError ''BadRequestException'' ''Invalid OpenAPI input'')),
        example_new_body,
        [PutRestApiCall \<lparr>PutRestApiInput.RestApiId = Some ''abc123'',
                          Mode = Some ''overwrite'', Body = ''openapi: 3.0.1''\<rparr>])"
proof -
  have changed: "HasChange example_new_body body"
    by (simp add: HasChange_def GetChange_def example_new_body_def example_attributes_def)
  have nonempty: "Get example_new_body body \<noteq> []"
    by (simp add: Get_def example_new_body_def)
  have input: "\<lparr>PutRestApiInput.RestApiId = Some ''abc123'', Mode = Some ''overwrite'',
         Body = ''openapi: 3.0.1''\<rparr> =
       \<lparr>PutRestApiInput.RestApiId = Some (ResourceData.Id example_new_body),
         Mode = Some ''overwrite'', Body = Get example_new_body body\<rparr>"
    by (simp add: Get_def example_new_body_def)
  have ops: "resourceAwsApiGatewayRestApiUpdateOperations example_helpers example_new_body =
      Inr []"
    by (simp add: update_operations_eq update_panics_def nil_entry_panics_def HasChange_def GetChange_def
        endpoint_configuration_0_types_def example_new_body_def)
  have accepted: "PutRestApi (apigateway example_meta) []
      \<lparr>PutRestApiInput.RestApiId = Some ''abc123'', Mode = Some ''overwrite'',
        Body = ''openapi: 3.0.1''\<rparr> = Inr example_api"
    by (simp add: example_meta_def example_client_def)
  have rejected: "PutRestApi (apigateway (example_meta\<lparr>apigateway := rejecting_client\<rparr>)) []
      \<lparr>PutRestApiInput.RestApiId = Some ''abc123'', Mode = Some ''overwrite'',
        Body = ''openapi: 3.0.1''\<rparr> =
      Inl (AwsError ''BadRequestException'' ''Invalid OpenAPI input'')"
    by (simp add: rejecting_client_def)
  have len: "length (snd (snd (resourceAwsApiGatewayRestApiUpdate example_helpers example_meta
      example_new_body []))) = 3"
    using changed nonempty ops accepted
    by (simp add: resourceAwsApiGatewayRestApiUpdate_def Let_def GetOk_def read_log
        PutModeOverwrite_def example_new_body_def Get_def example_meta_def example_client_def)
  have last: "last (snd (snd (resourceAwsApiGatewayRestApiUpdate example_helpers example_meta
      example_new_body []))) = GetRestApiCall (Some ''abc123'')"
    using changed nonempty ops accepted
    by (simp add: resourceAwsApiGatewayRestApiUpdate_def Let_def GetOk_def read_log
        PutModeOverwrite_def example_new_body_def Get_def example_meta_def example_client_def)
  obtain rest rest' where
    first: "snd (snd (resourceAwsApiGatewayRestApiUpdate example_helpers example_meta
        example_new_body [])) =
      PutRestApiCall \<lparr>PutRestApiInput.RestApiId = Some ''abc123'', Mode = Some ''overwrite'',
        Body = ''openapi: 3.0.1''\<rparr> # rest"
    and second: "rest =
      UpdateRestApiCall \<lparr>RestApiId = Some (ResourceData.Id example_new_body),
        PatchOperations = []\<rparr> # rest'"
    using update_body_overwrite_first [OF changed nonempty input,
        of example_helpers example_meta "[]"] ops accepted
    by auto
  have "rest' = [GetRestApiCall (Some ''abc123'')]"
    using len last unfolding first second
    by (cases rest') (simp_all split: if_splits)
  then have run: "snd (snd (resourceAwsApiGatewayRestApiUpdate example_helpers example_meta
        example_new_body [])) =
       [PutRestApiCall \<lparr>PutRestApiInput.RestApiId = Some ''abc123'',
                         Mode = Some ''overwrite'', Body = ''openapi: 3.0.1''\<rparr>,
        UpdateRestApiCall \<lparr>RestApiId = Some ''abc123'', PatchOperations = []\<rparr>,
        GetRestApiCall (Some ''abc123'')]"
    unfolding first second by (simp add: example_new_body_def)
  obtain rest'' where
    failed: "snd (snd (resourceAwsApiGatewayRestApiUpdate example_helpers
        (example_meta\<lparr>apigateway := rejecting_client\<rparr>) example_new_body [])) =
      PutRestApiCall \<lparr>PutRestApiInput.RestApiId = Some ''abc123'', Mode = Some ''overwrite'',
        Body = ''openapi: 3.0.1''\<rparr> # rest''"
    and stop: "rest'' = []"
    and wrapped: "fst (resourceAwsApiGatewayRestApiUpdate example_helpers
        (example_meta\<lparr>apigateway := rejecting_client\<rparr>) example_new_body []) =
      ReturnError (Wrapf ''Error updating API Gateway specification: {{err}}''
        (AwsError ''BadRequestException'' ''Invalid OpenAPI input''))"
    using update_body_overwrite_first [OF changed nonempty input,
        of example_helpers "example_meta\<lparr>apigateway := rejecting_client\<rparr>" "[]"] rejected
    by auto
  have same: "fst (snd (resourceAwsApiGatewayRestApiUpdate example_helpers
        (example_meta\<lparr>apigateway := rejecting_client\<rparr>) example_new_body [])) =
      example_new_body"
    using changed nonempty rejected
    by (simp add: resourceAwsApiGatewayRestApiUpdate_def Let_def GetOk_def PutModeOverwrite_def
        Get_def example_new_body_def)
  have "resourceAwsApiGatewayRestApiUpdate example_helpers
       (example_meta\<lparr>apigateway := rejecting_client\<rparr>) example_new_body [] =
       (ReturnError
          (Wrapf ''Error updating API Gateway specification: {{err}}''
             (AwsError ''BadRequestException'' ''Invalid OpenAPI input'')),
        example_new_body,
        [PutRestApiCall \<lparr>PutRestApiInput.RestApiId = Some ''abc123'',
                          Mode = Some ''overwrite'', Body = ''openapi: 3.0.1''\<rparr>])"
    using failed stop wrapped same
    by (cases "resourceAwsApiGatewayRestApiUpdate example_helpers
       (example_meta\<lparr>apigateway := rejecting_client\<rparr>) example_new_body []") simp
  with changed nonempty run show ?thesis
    by simp
qed

section \<open>Facts about strconv.Unquote\<close>

lemma char_of_byte: "char_of (byte c) = c"
  by (simp add: byte_def)

lemma byte_quote: "byte (CHR 0x22) = 34" and byte_backslash: "byte (CHR 0x5C) = 92"
  and byte_newline: "byte (CHR 0x0A) = 10"
  by (simp_all add: byte_def)

lemma high_byte_not_special:
  "byte c \<ge> 0x80 \<Longrightarrow> c \<noteq> CHR 0x22 \<and> c \<noteq> CHR 0x5C \<and> c \<noteq> CHR 0x0A"
  using byte_quote byte_backslash byte_newline by auto

lemma newline_escape: "CHR 0x0A \<notin> set (escape_one_level p)"
  by (induction p) auto

lemma escape_plain:
  "CHR 0x22 \<notin> set p \<Longrightarrow> CHR 0x5C \<notin> set p \<Longrightarrow> CHR 0x0A \<notin> set p \<Longrightarrow>
   escape_one_level p = p"
  by (induction p) auto

lemma escape_special:
  "CHR 0x22 \<in> set p \<or> CHR 0x5C \<in> set p \<or> CHR 0x0A \<in> set p \<Longrightarrow>
   CHR 0x5C \<in> set (escape_one_level p)"
  by (induction p) auto

lemma mod_window:
  fixes n :: nat
  assumes "q * m \<le> n" and "n < q * m + m"
  shows "n mod m = n - q * m"
proof -
  obtain k where k: "n = q * m + k"
    using assms(1) le_Suc_ex by blast
  then have "k < m"
    using assms(2) by simp
  then show ?thesis
    using k by simp
qed

text \<open>Encoding undoes decoding on a well-formed multi-byte sequence.\<close>

lemma encode_decode_2:
  assumes "first (byte b0) = Some (2, lo, hi)" "lo \<le> byte b1" "byte b1 \<le> hi"
  shows "\<exists>r. DecodeRuneInString (b0 # b1 # rest) = (r, 2) \<and>
             EncodeRune r = [b0, b1] \<and> r \<ge> 0x80"
proof -
  have b0: "0xC2 \<le> byte b0" "byte b0 \<le> 0xDF" and lohi: "lo = 0x80" "hi = 0xBF"
    using assms(1) by (auto simp: first_def split: if_splits)
  have b1: "0x80 \<le> byte b1" "byte b1 \<le> 0xBF"
    using assms(2,3) lohi by auto
  have decode:
    "DecodeRuneInString (b0 # b1 # rest) = ((byte b0 mod 32) * 64 + byte b1 mod 64, 2)"
    using assms b0 b1 by (simp add: DecodeRuneInString_def RuneSelf_def Let_def)
  define r where "r = (byte b0 mod 32) * 64 + byte b1 mod 64"
  have m0: "byte b0 mod 32 = byte b0 - 192"
    using mod_window [of 6 32 "byte b0"] b0 by simp
  have m1: "byte b1 mod 64 = byte b1 - 128"
    using mod_window [of 2 64 "byte b1"] b1 by simp
  have r: "r = (byte b0 - 192) * 64 + (byte b1 - 128)"
    by (simp add: r_def m0 m1)
  have low: "byte b1 - 128 < 64"
    using b1 by simp
  have rdiv: "r div 64 = byte b0 - 192" and rmod: "r mod 64 = byte b1 - 128"
    using low unfolding r by simp_all
  have range: "0x80 \<le> r" "r \<le> 0x7FF"
    using b0 b1 unfolding r by simp_all
  have "EncodeRune r = [char_of (byte b0), char_of (byte b1)]"
    using range b0 b1 by (simp add: EncodeRune_def rdiv rmod)
  then have "EncodeRune r = [b0, b1]"
    by (simp add: char_of_byte)
  with decode range(1) show ?thesis
    unfolding r_def by blast
qed

lemma digits_64:
  fixes a b :: nat
  assumes "b < 64"
  shows "(a * 64 + b) div 64 = a" and "(a * 64 + b) mod 64 = b"
  using assms by simp_all

lemma encode_3:
  assumes "k0 < 16" "k1 < 64" "k2 < 64" "k0 = 0 \<longrightarrow> 32 \<le> k1" "k0 = 13 \<longrightarrow> k1 < 32"
  shows "EncodeRune (k0 * 4096 + k1 * 64 + k2) =
           [char_of (224 + k0), char_of (128 + k1), char_of (128 + k2)]"
    and "k0 * 4096 + k1 * 64 + k2 \<ge> 0x80"
proof -
  define r where "r = k0 * 4096 + k1 * 64 + k2"
  have shape: "r = (k0 * 64 + k1) * 64 + k2"
    by (simp add: r_def)
  have d64: "r div 64 = k0 * 64 + k1"
    unfolding shape by (rule digits_64(1) [OF assms(3)])
  have m64: "r mod 64 = k2"
    unfolding shape by (rule digits_64(2) [OF assms(3)])
  have "r div 4096 = (r div 64) div 64"
    by (simp add: div_mult2_eq)
  then have d4096: "r div 4096 = k0"
    unfolding d64 by (simp only: digits_64(1) [OF assms(2)])
  have dm: "(r div 64) mod 64 = k1"
    unfolding d64 by (rule digits_64(2) [OF assms(2)])
  have big: "r > 0x7FF"
    using assms unfolding r_def by (cases "k0 = 0") simp_all
  have top: "r \<le> 0xFFFF"
    using assms unfolding r_def by simp
  have surrogate: "\<not> (0xD800 \<le> r \<and> r \<le> 0xDFFF)"
  proof (cases "k0 = 13")
    case True
    then show ?thesis using assms unfolding r_def by simp
  next
    case False
    then have "k0 < 13 \<or> 13 < k0" by auto
    then show ?thesis using assms unfolding r_def by auto
  qed
  have "EncodeRune r =
      [char_of (0xE0 + r div 4096), char_of (0x80 + (r div 64) mod 64),
       char_of (0x80 + r mod 64)]"
    using big top surrogate by (auto simp: EncodeRune_def MaxRune_def Let_def)
  then have "EncodeRune r = [char_of (224 + k0), char_of (128 + k1), char_of (128 + k2)]"
    by (simp only: d4096 dm m64)
  then show "EncodeRune (k0 * 4096 + k1 * 64 + k2) =
      [char_of (224 + k0), char_of (128 + k1), char_of (128 + k2)]"
    by (simp add: r_def)
  show "k0 * 4096 + k1 * 64 + k2 \<ge> 0x80"
    using big by (simp add: r_def)
qed

lemma encode_4:
  assumes "k0 < 5" "k1 < 64" "k2 < 64" "k3 < 64" "k0 = 0 \<longrightarrow> 16 \<le> k1" "k0 = 4 \<longrightarrow> k1 < 16"
  shows "EncodeRune (k0 * 262144 + k1 * 4096 + k2 * 64 + k3) =
           [char_of (240 + k0), char_of (128 + k1), char_of (128 + k2), char_of (128 + k3)]"
    and "k0 * 262144 + k1 * 4096 + k2 * 64 + k3 \<ge> 0x80"
proof -
  define r where "r = k0 * 262144 + k1 * 4096 + k2 * 64 + k3"
  have shape: "r = ((k0 * 64 + k1) * 64 + k2) * 64 + k3"
    by (simp add: r_def)
  have d64: "r div 64 = (k0 * 64 + k1) * 64 + k2"
    unfolding shape by (rule digits_64(1) [OF assms(4)])
  have m64: "r mod 64 = k3"
    unfolding shape by (rule digits_64(2) [OF assms(4)])
  have dm64: "(r div 64) mod 64 = k2"
    unfolding d64 by (rule digits_64(2) [OF assms(3)])
  have dd64: "(r div 64) div 64 = k0 * 64 + k1"
    unfolding d64 by (rule digits_64(1) [OF assms(3)])
  have "r div 4096 = (r div 64) div 64"
    by (simp add: div_mult2_eq)
  then have d4096: "r div 4096 = k0 * 64 + k1"
    by (simp only: dd64)
  have dm4096: "(r div 4096) mod 64 = k1"
    unfolding d4096 by (rule digits_64(2) [OF assms(2)])
  have dd4096: "(r div 4096) div 64 = k0"
    unfolding d4096 by (rule digits_64(1) [OF assms(2)])
  have "r div 262144 = (r div 4096) div 64"
    by (simp add: div_mult2_eq)
  then have d262144: "r div 262144 = k0"
    by (simp only: dd4096)
  have big: "r > 0xFFFF"
    using assms unfolding r_def by (cases "k0 = 0") simp_all
  have top: "r \<le> 0x10FFFF"
  proof (cases "k0 = 4")
    case True
    then show ?thesis using assms unfolding r_def by simp
  next
    case False
    then have "k0 \<le> 3" using assms(1) by simp
    then show ?thesis using assms unfolding r_def by simp
  qed
  have "EncodeRune r =
      [char_of (0xF0 + r div 262144), char_of (0x80 + (r div 4096) mod 64),
       char_of (0x80 + (r div 64) mod 64), char_of (0x80 + r mod 64)]"
    using big top by (simp add: EncodeRune_def MaxRune_def Let_def)
  then have "EncodeRune r =
      [char_of (240 + k0), char_of (128 + k1), char_of (128 + k2), char_of (128 + k3)]"
    by (simp only: d262144 dm4096 dm64 m64)
  then show "EncodeRune (k0 * 262144 + k1 * 4096 + k2 * 64 + k3) =
      [char_of (240 + k0), char_of (128 + k1), char_of (128 + k2), char_of (128 + k3)]"
    by (simp add: r_def)
  show "k0 * 262144 + k1 * 4096 + k2 * 64 + k3 \<ge> 0x80"
    using big by (simp add: r_def)
qed

lemma encode_decode_3:
  assumes "first (byte b0) = Some (3, lo, hi)" "lo \<le> byte b1" "byte b1 \<le> hi"
    and "continuation (byte b2)"
  shows "\<exists>r. DecodeRuneInString (b0 # b1 # b2 # rest) = (r, 3) \<and>
             EncodeRune r = [b0, b1, b2] \<and> r \<ge> 0x80"
proof -
  have b0: "0xE0 \<le> byte b0" "byte b0 \<le> 0xEF" and lohi: "0x80 \<le> lo" "hi \<le> 0xBF"
    and e0: "byte b0 = 0xE0 \<longrightarrow> lo = 0xA0" and ed: "byte b0 = 0xED \<longrightarrow> hi = 0x9F"
    using assms(1) by (auto simp: first_def split: if_splits)
  have b1: "0x80 \<le> byte b1" "byte b1 \<le> 0xBF"
    using assms(2,3) lohi by auto
  have b2: "0x80 \<le> byte b2" "byte b2 \<le> 0xBF"
    using assms(4) by (auto simp: continuation_def)
  define k0 k1 k2 where "k0 = byte b0 - 224" and "k1 = byte b1 - 128" and "k2 = byte b2 - 128"
  have m0: "byte b0 mod 16 = k0"
    using mod_window [of 14 16 "byte b0"] b0 by (simp add: k0_def)
  have m1: "byte b1 mod 64 = k1"
    using mod_window [of 2 64 "byte b1"] b1 by (simp add: k1_def)
  have m2: "byte b2 mod 64 = k2"
    using mod_window [of 2 64 "byte b2"] b2 by (simp add: k2_def)
  have decode: "DecodeRuneInString (b0 # b1 # b2 # rest) = (k0 * 4096 + k1 * 64 + k2, 3)"
    using assms b0 by (simp add: DecodeRuneInString_def RuneSelf_def Let_def m0 m1 m2)
  have bounds: "k0 < 16" "k1 < 64" "k2 < 64"
    using b0 b1 b2 by (simp_all add: k0_def k1_def k2_def)
  have low: "k0 = 0 \<longrightarrow> 32 \<le> k1"
    using e0 b0 assms(2) by (auto simp: k0_def k1_def)
  have high: "k0 = 13 \<longrightarrow> k1 < 32"
    using ed b0 b1 assms(3) by (auto simp: k0_def k1_def)
  have bytes: "224 + k0 = byte b0" "128 + k1 = byte b1" "128 + k2 = byte b2"
    using b0 b1 b2 by (simp_all add: k0_def k1_def k2_def)
  have "EncodeRune (k0 * 4096 + k1 * 64 + k2) = [b0, b1, b2]"
    unfolding encode_3(1) [OF bounds low high] bytes by (simp add: char_of_byte)
  with decode encode_3(2) [OF bounds low high] show ?thesis
    by blast
qed

lemma encode_decode_4:
  assumes "first (byte b0) = Some (4, lo, hi)" "lo \<le> byte b1" "byte b1 \<le> hi"
    and "continuation (byte b2)" and "continuation (byte b3)"
  shows "\<exists>r. DecodeRuneInString (b0 # b1 # b2 # b3 # rest) = (r, 4) \<and>
             EncodeRune r = [b0, b1, b2, b3] \<and> r \<ge> 0x80"
proof -
  have b0: "0xF0 \<le> byte b0" "byte b0 \<le> 0xF4" and lohi: "0x80 \<le> lo" "hi \<le> 0xBF"
    and f0: "byte b0 = 0xF0 \<longrightarrow> lo = 0x90" and f4: "byte b0 = 0xF4 \<longrightarrow> hi = 0x8F"
    using assms(1) by (auto simp: first_def split: if_splits)
  have b1: "0x80 \<le> byte b1" "byte b1 \<le> 0xBF"
    using assms(2,3) lohi by auto
  have b2: "0x80 \<le> byte b2" "byte b2 \<le> 0xBF"
    using assms(4) by (auto simp: continuation_def)
  have b3: "0x80 \<le> byte b3" "byte b3 \<le> 0xBF"
    using assms(5) by (auto simp: continuation_def)
  define k0 k1 k2 k3 where "k0 = byte b0 - 240" and "k1 = byte b1 - 128"
    and "k2 = byte b2 - 128" and "k3 = byte b3 - 128"
  have m0: "byte b0 mod 8 = k0"
    using mod_window [of 30 8 "byte b0"] b0 by (simp add: k0_def)
  have m1: "byte b1 mod 64 = k1"
    using mod_window [of 2 64 "byte b1"] b1 by (simp add: k1_def)
  have m2: "byte b2 mod 64 = k2"
    using mod_window [of 2 64 "byte b2"] b2 by (simp add: k2_def)
  have m3: "byte b3 mod 64 = k3"
    using mod_window [of 2 64 "byte b3"] b3 by (simp add: k3_def)
  have decode: "DecodeRuneInString (b0 # b1 # b2 # b3 # rest) =
      (k0 * 262144 + k1 * 4096 + k2 * 64 + k3, 4)"
    using assms b0 by (simp add: DecodeRuneInString_def RuneSelf_def Let_def m0 m1 m2 m3)
  have bounds: "k0 < 5" "k1 < 64" "k2 < 64" "k3 < 64"
    using b0 b1 b2 b3 by (simp_all add: k0_def k1_def k2_def k3_def)
  have low: "k0 = 0 \<longrightarrow> 16 \<le> k1"
    using f0 b0 assms(2) by (auto simp: k0_def k1_def)
  have high: "k0 = 4 \<longrightarrow> k1 < 16"
    using f4 b0 b1 assms(3) by (auto simp: k0_def k1_def)
  have bytes: "240 + k0 = byte b0" "128 + k1 = byte b1" "128 + k2 = byte b2"
      "128 + k3 = byte b3"
    using b0 b1 b2 b3 by (simp_all add: k0_def k1_def k2_def k3_def)
  have "EncodeRune (k0 * 262144 + k1 * 4096 + k2 * 64 + k3) = [b0, b1, b2, b3]"
    unfolding encode_4(1) [OF bounds low high] bytes by (simp add: char_of_byte)
  with decode encode_4(2) [OF bounds low high] show ?thesis
    by blast
qed

lemma ValidString_ascii:
  assumes "ValidString (c # cs)" and "byte c < 0x80"
  shows "ValidString cs"
  using assms by (simp add: ValidString.simps [of "c # cs"] RuneSelf_def)

lemma first_sizes: "first b = Some (sz, lo, hi) \<Longrightarrow> sz = 2 \<or> sz = 3 \<or> sz = 4"
  by (auto simp: first_def split: if_splits)

lemma first_bounds: "first b = Some (sz, lo, hi) \<Longrightarrow> 0x80 \<le> lo \<and> hi \<le> 0xBF"
  by (auto simp: first_def split: if_splits)

lemma ValidString_multi:
  assumes valid: "ValidString (c # cs)" and high: "byte c \<ge> 0x80"
  obtains (two) b1 rest lo hi where "cs = b1 # rest" "first (byte c) = Some (2, lo, hi)"
      "lo \<le> byte b1" "byte b1 \<le> hi" "ValidString rest"
  | (three) b1 b2 rest lo hi where "cs = b1 # b2 # rest" "first (byte c) = Some (3, lo, hi)"
      "lo \<le> byte b1" "byte b1 \<le> hi" "continuation (byte b2)" "ValidString rest"
  | (four) b1 b2 b3 rest lo hi where "cs = b1 # b2 # b3 # rest"
      "first (byte c) = Some (4, lo, hi)" "lo \<le> byte b1" "byte b1 \<le> hi"
      "continuation (byte b2)" "continuation (byte b3)" "ValidString rest"
proof -
  have unfolded: "(case first (byte c) of
          None \<Rightarrow> False
        | Some (sz, lo, hi) \<Rightarrow>
            if sz > length (c # cs) then False
            else if byte ((c # cs) ! 1) < lo \<or> hi < byte ((c # cs) ! 1) then False
            else if sz = 2 then ValidString (drop 2 (c # cs))
            else if \<not> continuation (byte ((c # cs) ! 2)) then False
            else if sz = 3 then ValidString (drop 3 (c # cs))
            else if \<not> continuation (byte ((c # cs) ! 3)) then False
            else ValidString (drop 4 (c # cs)))"
    using valid high by (simp add: ValidString.simps [of "c # cs"] RuneSelf_def Let_def)
  then obtain sz lo hi where lead: "first (byte c) = Some (sz, lo, hi)"
    by (cases "first (byte c)") auto
  have len: "sz \<le> length (c # cs)"
    and second: "lo \<le> byte ((c # cs) ! 1)" "byte ((c # cs) ! 1) \<le> hi"
    using unfolded lead by (auto split: if_splits)
  from first_sizes [OF lead] show thesis
  proof (elim disjE)
    assume sz: "sz = 2"
    then obtain b1 rest where cs: "cs = b1 # rest"
      using len by (cases cs) auto
    show thesis
      using two [OF cs] unfolded lead sz cs by (auto split: if_splits)
  next
    assume sz: "sz = 3"
    then obtain b1 b2 rest where cs: "cs = b1 # b2 # rest"
      using len by (cases cs; cases "tl cs") auto
    show thesis
      using three [OF cs] unfolded lead sz cs by (auto split: if_splits)
  next
    assume sz: "sz = 4"
    then obtain b1 b2 b3 rest where cs: "cs = b1 # b2 # b3 # rest"
      using len by (cases cs; cases "tl cs"; cases "tl (tl cs)") auto
    show thesis
      using four [OF cs] unfolded lead sz cs by (auto split: if_splits)
  qed
qed

lemma continuation_high: "continuation b \<Longrightarrow> 0x80 \<le> b"
  by (simp add: continuation_def)

lemma unquote_step:
  assumes "UnquoteChar s (CHR 0x22) = Inr (v, multibyte, ss)" and "s \<noteq> []"
  shows "unquote_loop (CHR 0x22) s buf =
           unquote_loop (CHR 0x22) ss
             (if v < int RuneSelf \<or> \<not> multibyte then buf @ [char_of (nat (v mod 256))]
              else buf @ EncodeRune (nat v))"
  using assms by (simp add: unquote_loop.simps [of "CHR 0x22" s buf] Let_def)

lemma unquote_loop_escape:
  "ValidString p \<Longrightarrow>
   unquote_loop (CHR 0x22) (escape_one_level p) buf = Inr (buf @ p)"
proof (induction p arbitrary: buf rule: length_induct)
  case (1 p)
  note valid = \<open>ValidString p\<close>
  show ?case
  proof (cases p)
    case Nil
    then show ?thesis
      by (simp add: unquote_loop.simps)
  next
    case (Cons c cs)
    consider (special) "c = CHR 0x22 \<or> c = CHR 0x5C"
      | (newline) "c = CHR 0x0A"
      | (plain) "byte c < 0x80" "c \<noteq> CHR 0x22" "c \<noteq> CHR 0x5C" "c \<noteq> CHR 0x0A"
      | (multi) "byte c \<ge> 0x80"
      by fastforce
    then show ?thesis
    proof cases
      case special
      then have ascii: "byte c < 0x80"
        using byte_quote byte_backslash by auto
      have rest: "ValidString cs"
        using ValidString_ascii valid Cons ascii by blast
      have char: "UnquoteChar (escape_one_level p) (CHR 0x22) =
          Inr (int (byte c), False, escape_one_level cs)"
        using special by (auto simp: Cons UnquoteChar_def Let_def byte_def RuneSelf_def)
      have "unquote_loop (CHR 0x22) (escape_one_level p) buf =
          unquote_loop (CHR 0x22) (escape_one_level cs) (buf @ [c])"
        using unquote_step [OF char, of buf] ascii
        by (simp add: Cons RuneSelf_def char_of_byte)
      also have "\<dots> = Inr ((buf @ [c]) @ cs)"
        using "1.IH" rest Cons by simp
      finally show ?thesis
        by (simp add: Cons)
    next
      case newline
      have ascii: "byte c < 0x80"
        using newline byte_newline by simp
      have rest: "ValidString cs"
        using ValidString_ascii valid Cons ascii by blast
      have char: "UnquoteChar (escape_one_level p) (CHR 0x22) =
          Inr (10, False, escape_one_level cs)"
        using newline by (simp add: Cons UnquoteChar_def Let_def byte_def RuneSelf_def)
      have ten: "char_of (10 :: nat) = c"
        using char_of_byte [of c] newline byte_newline by simp
      have "unquote_loop (CHR 0x22) (escape_one_level p) buf =
          unquote_loop (CHR 0x22) (escape_one_level cs) (buf @ [c])"
        using unquote_step [OF char, of buf] newline
        by (simp add: Cons RuneSelf_def ten)
      also have "\<dots> = Inr ((buf @ [c]) @ cs)"
        using "1.IH" rest Cons by simp
      finally show ?thesis
        by (simp add: Cons)
    next
      case plain
      have rest: "ValidString cs"
        using ValidString_ascii valid Cons plain(1) by blast
      have esc: "escape_one_level p = c # escape_one_level cs"
        using plain by (auto simp: Cons)
      have char: "UnquoteChar (escape_one_level p) (CHR 0x22) =
          Inr (int (byte c), False, escape_one_level cs)"
        using plain(1-3) by (simp add: esc UnquoteChar_def Let_def RuneSelf_def)
      have "unquote_loop (CHR 0x22) (escape_one_level p) buf =
          unquote_loop (CHR 0x22) (escape_one_level cs) (buf @ [c])"
        using unquote_step [OF char, of buf] plain(1)
        by (simp add: esc RuneSelf_def char_of_byte)
      also have "\<dots> = Inr ((buf @ [c]) @ cs)"
        using "1.IH" rest Cons by simp
      finally show ?thesis
        by (simp add: Cons)
    next
      case multi
      have lead: "c \<noteq> CHR 0x22" "c \<noteq> CHR 0x5C" "c \<noteq> CHR 0x0A"
        using high_byte_not_special [OF multi] by simp_all
      from valid [unfolded Cons] multi show ?thesis
      proof (cases rule: ValidString_multi)
        case (two b1 rest lo hi)
        have b1: "byte b1 \<ge> 0x80"
          using first_bounds [OF two(2)] two(3) by simp
        have esc: "escape_one_level p = c # b1 # escape_one_level rest"
          using lead high_byte_not_special [OF b1] by (simp add: Cons two(1))
        obtain r where decode: "DecodeRuneInString (c # b1 # escape_one_level rest) = (r, 2)"
          and encode: "EncodeRune r = [c, b1]" and r: "r \<ge> 0x80"
          using encode_decode_2 [OF two(2-4)] by blast
        have char: "UnquoteChar (escape_one_level p) (CHR 0x22) =
            Inr (int r, True, escape_one_level rest)"
          using lead multi decode by (simp add: esc UnquoteChar_def Let_def RuneSelf_def)
        have "unquote_loop (CHR 0x22) (escape_one_level p) buf =
            unquote_loop (CHR 0x22) (escape_one_level rest) (buf @ [c, b1])"
          using unquote_step [OF char, of buf] encode r by (simp add: esc RuneSelf_def)
        also have "\<dots> = Inr ((buf @ [c, b1]) @ rest)"
          using "1.IH" two(5) Cons two(1) by simp
        finally show ?thesis
          by (simp add: Cons two(1))
      next
        case (three b1 b2 rest lo hi)
        have b1: "byte b1 \<ge> 0x80"
          using first_bounds [OF three(2)] three(3) by simp
        have b2: "byte b2 \<ge> 0x80"
          using continuation_high [OF three(5)] .
        have esc: "escape_one_level p = c # b1 # b2 # escape_one_level rest"
          using lead high_byte_not_special [OF b1] high_byte_not_special [OF b2]
          by (simp add: Cons three(1))
        obtain r where decode: "DecodeRuneInString (c # b1 # b2 # escape_one_level rest) = (r, 3)"
          and encode: "EncodeRune r = [c, b1, b2]" and r: "r \<ge> 0x80"
          using encode_decode_3 [OF three(2-5)] by blast
        have char: "UnquoteChar (escape_one_level p) (CHR 0x22) =
            Inr (int r, True, escape_one_level rest)"
          using lead multi decode by (simp add: esc UnquoteChar_def Let_def RuneSelf_def)
        have "unquote_loop (CHR 0x22) (escape_one_level p) buf =
            unquote_loop (CHR 0x22) (escape_one_level rest) (buf @ [c, b1, b2])"
          using unquote_step [OF char, of buf] encode r by (simp add: esc RuneSelf_def)
        also have "\<dots> = Inr ((buf @ [c, b1, b2]) @ rest)"
          using "1.IH" three(6) Cons three(1) by simp
        finally show ?thesis
          by (simp add: Cons three(1))
      next
        case (four b1 b2 b3 rest lo hi)
        have b1: "byte b1 \<ge> 0x80"
          using first_bounds [OF four(2)] four(3) by simp
        have b2: "byte b2 \<ge> 0x80"
          using continuation_high [OF four(5)] .
        have b3: "byte b3 \<ge> 0x80"
          using continuation_high [OF four(6)] .
        have esc: "escape_one_level p = c # b1 # b2 # b3 # escape_one_level rest"
          using lead high_byte_not_special [OF b1] high_byte_not_special [OF b2]
            high_byte_not_special [OF b3]
          by (simp add: Cons four(1))
        obtain r where
          decode: "DecodeRuneInString (c # b1 # b2 # b3 # escape_one_level rest) = (r, 4)"
          and encode: "EncodeRune r = [c, b1, b2, b3]" and r: "r \<ge> 0x80"
          using encode_decode_4 [OF four(2-6)] by blast
        have char: "UnquoteChar (escape_one_level p) (CHR 0x22) =
            Inr (int r, True, escape_one_level rest)"
          using lead multi decode by (simp add: esc UnquoteChar_def Let_def RuneSelf_def)
        have "unquote_loop (CHR 0x22) (escape_one_level p) buf =
            unquote_loop (CHR 0x22) (escape_one_level rest) (buf @ [c, b1, b2, b3])"
          using unquote_step [OF char, of buf] encode r by (simp add: esc RuneSelf_def)
        also have "\<dots> = Inr ((buf @ [c, b1, b2, b3]) @ rest)"
          using "1.IH" four(7) Cons four(1) by simp
        finally show ?thesis
          by (simp add: Cons four(1))
      qed
    qed
  qed
qed

lemma Unquote_quoted:
  "Unquote (CHR 0x22 # s @ [CHR 0x22]) =
     (if contains s (CHR 0x0A) then Inl ErrSyntax
      else if \<not> contains s (CHR 0x5C) \<and> \<not> contains s (CHR 0x22) \<and> ValidString s then Inr s
      else unquote_loop (CHR 0x22) s [])"
proof -
  have last: "(CHR 0x22 # s @ [CHR 0x22]) ! Suc (length s) = CHR 0x22"
    by (simp add: nth_append)
  show ?thesis
    by (simp add: Unquote_def Let_def last)
qed

lemma Unquote_escape:
  assumes "ValidString p"
  shows "Unquote (CHR 0x22 # escape_one_level p @ [CHR 0x22]) = Inr p"
proof (cases "CHR 0x22 \<in> set p \<or> CHR 0x5C \<in> set p \<or> CHR 0x0A \<in> set p")
  case True
  then have "contains (escape_one_level p) (CHR 0x5C)"
    using escape_special by (simp add: contains_def)
  then show ?thesis
    using assms unquote_loop_escape [of p "[]"]
    by (auto simp: Unquote_quoted contains_def newline_escape)
next
  case False
  then have "escape_one_level p = p"
    using escape_plain by blast
  then show ?thesis
    using assms False by (auto simp: Unquote_quoted contains_def)
qed

lemma example_policy_valid: "ValidString example_policy"
  unfolding example_policy_def by code_simp

lemma two_line_policy_valid: "ValidString two_line_policy"
  unfolding two_line_policy_def by code_simp

section \<open>Claim about the policy read back\<close>

text \<open>
  Claim C8. For every policy document that is valid UTF-8 (as JSON text is), if the
  remote lookup answers with that document with one added level of
  backslash-escaping, the unescaping step of read recovers exactly the document, read
  stores it as the policy and does not return an error; and whenever the unescaping of
  the answered policy fails, read returns the error of the unescaping wrapped as
  \<^verbatim>\<open>error unescaping policy\<close>.
\<close>

theorem read_policy_round_trip:
  assumes "GetRestApi (apigateway meta) log (Some (ResourceData.Id d)) = Inr api"
  shows "(ValidString p \<and> RestApi.Policy api = Some (escape_one_level p) \<longrightarrow>
            Unquote ([CHR 0x22] @ escape_one_level p @ [CHR 0x22]) = Inr p \<and>
            policy (new_values (fst (snd (resourceAwsApiGatewayRestApiRead h meta d log)))) = p \<and>
            (\<forall>e. fst (resourceAwsApiGatewayRestApiRead h meta d log) \<noteq> ReturnError e))
       \<and> (\<forall>err. Unquote ([CHR 0x22] @ StringValue (RestApi.Policy api) @ [CHR 0x22]) = Inl err \<longrightarrow>
            fst (resourceAwsApiGatewayRestApiRead h meta d log) =
              ReturnError (Errorf ''error unescaping policy: '' err))"
proof (intro conjI impI allI)
  assume a: "ValidString p \<and> RestApi.Policy api = Some (escape_one_level p)"
  then show u: "Unquote ([CHR 0x22] @ escape_one_level p @ [CHR 0x22]) = Inr p"
    using Unquote_escape [of p] by simp
  have u': "Unquote (CHR 0x22 # StringValue (RestApi.Policy api) @ [CHR 0x22]) = Inr p"
    using a u by (simp add: StringValue_def)
  show "policy (new_values (fst (snd (resourceAwsApiGatewayRestApiRead h meta d log)))) = p"
    using assms
    by (simp add: resourceAwsApiGatewayRestApiRead_def Let_def u' Set_attr_def
        split: option.splits)
  fix e
  show "fst (resourceAwsApiGatewayRestApiRead h meta d log) \<noteq> ReturnError e"
    using assms
    by (simp add: resourceAwsApiGatewayRestApiRead_def Let_def u' split: option.splits)
next
  fix err
  assume "Unquote ([CHR 0x22] @ StringValue (RestApi.Policy api) @ [CHR 0x22]) = Inl err"
  then show "fst (resourceAwsApiGatewayRestApiRead h meta d log) =
      ReturnError (Errorf ''error unescaping policy: '' err)"
    using assms by (simp add: resourceAwsApiGatewayRestApiRead_def Let_def)
qed

theorem read_policy_round_trip_witness:
  "ValidString example_policy
   \<and> escape_one_level example_policy =
       ''{'' @ [CHR 0x5C, CHR 0x22] @ ''Version'' @ [CHR 0x5C, CHR 0x22] @ '':''
         @ [CHR 0x5C, CHR 0x22] @ ''2012-10-17'' @ [CHR 0x5C, CHR 0x22] @ ''}''
   \<and> policy (new_values (fst (snd (resourceAwsApiGatewayRestApiRead example_helpers
         (example_meta\<lparr>apigateway := policy_client example_policy\<rparr>)
         example_existing [])))) = example_policy
   \<and> ValidString two_line_policy
   \<and> escape_one_level two_line_policy = ''{'' @ [CHR 0x5C, CHR ''n''] @ ''}''
   \<and> policy (new_values (fst (snd (resourceAwsApiGatewayRestApiRead example_helpers
         (example_meta\<lparr>apigateway := policy_client two_line_policy\<rparr>)
         example_existing [])))) = two_line_policy
   \<and> Unquote ([CHR 0x22] @ StringValue (Some (''{}'' @ [CHR 0x5C])) @ [CHR 0x22]) =
       Inl ErrSyntax
   \<and> fst (resourceAwsApiGatewayRestApiRead example_helpers
         (example_meta\<lparr>apigateway := malformed_policy_client\<rparr>)
         example_existing []) =
       ReturnError (Errorf ''error unescaping policy: '' ErrSyntax)"
proof -
  have escaped: "escape_one_level example_policy =
       ''{'' @ [CHR 0x5C, CHR 0x22] @ ''Version'' @ [CHR 0x5C, CHR 0x22] @ '':''
         @ [CHR 0x5C, CHR 0x22] @ ''2012-10-17'' @ [CHR 0x5C, CHR 0x22] @ ''}''"
    by (simp add: example_policy_def)
  have escaped': "escape_one_level two_line_policy = ''{'' @ [CHR 0x5C, CHR ''n''] @ ''}''"
    by (simp add: two_line_policy_def)
  have answer: "GetRestApi (apigateway (example_meta\<lparr>apigateway := policy_client q\<rparr>)) []
      (Some (ResourceData.Id example_existing)) =
      Inr (example_api\<lparr>RestApi.Policy := Some (escape_one_level q)\<rparr>)" for q
    by (simp add: policy_client_def)
  have malformed: "GetRestApi (apigateway (example_meta\<lparr>apigateway := malformed_policy_client\<rparr>))
      [] (Some (ResourceData.Id example_existing)) =
      Inr (example_api\<lparr>RestApi.Policy := Some (''{}'' @ [CHR 0x5C])\<rparr>)"
    by (simp add: malformed_policy_client_def)
  have "unquote_loop (CHR 0x22) [CHR 0x5C] buf = Inl ErrSyntax" for buf
    by (simp add: unquote_loop.simps [of _ "[CHR 0x5C]"] UnquoteChar_def Let_def
        byte_def RuneSelf_def)
  then have "unquote_loop (CHR 0x22) [CHR ''}'', CHR 0x5C] buf = Inl ErrSyntax" for buf
    by (simp add: unquote_loop.simps [of _ "[CHR ''}'', CHR 0x5C]"] UnquoteChar_def Let_def
        byte_def RuneSelf_def)
  then have "unquote_loop (CHR 0x22) (''{}'' @ [CHR 0x5C]) [] = Inl ErrSyntax"
    by (simp add: unquote_loop.simps [of _ "[CHR ''{'', CHR ''}'', CHR 0x5C]"] UnquoteChar_def
        Let_def byte_def RuneSelf_def)
  then have fails:
    "Unquote ([CHR 0x22] @ StringValue (Some (''{}'' @ [CHR 0x5C])) @ [CHR 0x22]) =
      Inl ErrSyntax"
    using Unquote_quoted [of "''{}'' @ [CHR 0x5C]"] by (simp add: StringValue_def contains_def)
  have stored: "policy (new_values (fst (snd (resourceAwsApiGatewayRestApiRead example_helpers
         (example_meta\<lparr>apigateway := policy_client example_policy\<rparr>)
         example_existing [])))) = example_policy"
    using read_policy_round_trip [OF answer, where p = example_policy
        and h = example_helpers]
      example_policy_valid
    by simp
  have stored': "policy (new_values (fst (snd (resourceAwsApiGatewayRestApiRead example_helpers
         (example_meta\<lparr>apigateway := policy_client two_line_policy\<rparr>)
         example_existing [])))) = two_line_policy"
    using read_policy_round_trip [OF answer, where p = two_line_policy
        and h = example_helpers]
      two_line_policy_valid
    by simp
  have reported: "fst (resourceAwsApiGatewayRestApiRead example_helpers
         (example_meta\<lparr>apigateway := malformed_policy_client\<rparr>)
         example_existing []) =
       ReturnError (Errorf ''error unescaping policy: '' ErrSyntax)"
    using read_policy_round_trip [OF malformed, where h = example_helpers] fails
    by simp
  from example_policy_valid escaped stored two_line_policy_valid escaped' stored' fails
    reported
  show ?thesis
    by blast
qed

end
